theory Spec2Isabelle
  imports Main "HOL-Library.Char_ord" "HOL-Library.List_Lexorder" "HOL-Library.AList"
begin

section \<open>Strings and numbers as the program prints and reads them\<close>

text \<open>
  The program is a TypeScript single-page application (\<open>App.tsx\<close>).  Its strings are
  modelled as \<open>string\<close>; every string the modelled functions build is ASCII.
  Calendar numbers (years, day counts, millisecond instants) are \<open>int\<close>: they are
  whole numbers that a \<open>Date\<close> keeps within \<open>8.64 * 10^15\<close>, where the arithmetic
  of doubles is exact.  The numeric suffix of an order id has no such bound, and is modelled
  as the double the program computes with (\<open>Num\<close> below).
\<close>

text \<open>\<open>String(n)\<close> for a non-negative integer: its decimal digits, no leading zero.\<close>

definition digitChar :: "nat \<Rightarrow> char" where
  "digitChar d = ''0123456789'' ! d"

fun StringNat :: "nat \<Rightarrow> string" where
  "StringNat n = (if n < 10 then [digitChar n] else StringNat (n div 10) @ [digitChar (n mod 10)])"

declare StringNat.simps [simp del]

text \<open>\<open>String(i)\<close> for an integer: a minus sign in front of a negative one.\<close>

definition StringInt :: "int \<Rightarrow> string" where
  "StringInt i = (if i < 0 then CHR ''-'' # StringNat (nat (- i)) else StringNat (nat i))"

text \<open>\<open>s.padStart(n, c)\<close> with a one-character filler \<open>c\<close>.\<close>

definition padStart :: "nat \<Rightarrow> char \<Rightarrow> string \<Rightarrow> string" where
  "padStart n c s = replicate (n - length s) c @ s"

text \<open>The regular-expression class \<open>\d\<close>: the ten ASCII digits.\<close>

definition isDigit :: "char \<Rightarrow> bool" where
  "isDigit c = (c \<in> set ''0123456789'')"

definition digitVal :: "char \<Rightarrow> int" where
  "digitVal c = of_char c - 48"

text \<open>The value of a string of decimal digits, most significant digit first.\<close>

definition decimalValue :: "string \<Rightarrow> int" where
  "decimalValue ds = foldl (\<lambda>a c. 10 * a + digitVal c) 0 ds"

subsection \<open>Doubles that hold whole numbers\<close>

text \<open>
  A JavaScript number whose value is a non-negative whole number, or \<open>Infinity\<close>.
  \<open>Finite n\<close> is used only with an \<open>n\<close> that a double represents exactly:
  every whole number up to \<open>2^53\<close>, and above it the multiples of a power of two with
  a 53-bit quotient.
\<close>

datatype Num = Finite int | PosInfinity

text \<open>The number of binary digits of a positive whole number.\<close>

function bitLength :: "int \<Rightarrow> nat" where
  "bitLength n = (if n \<le> 0 then 0 else Suc (bitLength (n div 2)))"
  by pat_completeness auto
termination by (relation "measure nat") auto

declare bitLength.simps [simp del]

text \<open>
  The double nearest to a non-negative whole number, ties to the even significand (the
  rounding of IEEE 754 that \<open>Number(s)\<close> and \<open>+\<close> apply): below \<open>2^53\<close> the
  number itself; above, the 53 leading bits \<open>q\<close>, rounded by the remaining \<open>e\<close>
  bits \<open>r\<close>; \<open>Infinity\<close> from \<open>2^1024 - 2^970\<close> on.
\<close>

definition roundDouble :: "int \<Rightarrow> Num" where
  "roundDouble n =
     (if n < 2 ^ 53 then Finite n
      else (let e = bitLength n - 53;
                q = n div 2 ^ e;
                r = n mod 2 ^ e;
                m = (if 2 ^ e < 2 * r \<or> (2 * r = 2 ^ e \<and> odd q) then q + 1 else q) * 2 ^ e
            in if 2 ^ 1024 \<le> m then PosInfinity else Finite m))"

text \<open>
  \<open>Number(s)\<close>, on the strings the program passes to it (the digit group of a regular
  expression match): the double nearest to the decimal value.  \<open>None\<close> stands for
  \<open>NaN\<close>, which no string of digits gives.
\<close>

definition NumberJS :: "string \<Rightarrow> Num option" where
  "NumberJS s = (if s \<noteq> [] \<and> list_all isDigit s then Some (roundDouble (decimalValue s)) else None)"

text \<open>\<open>Math.max(a, b)\<close> and \<open>a + 1\<close> on these numbers.\<close>

fun maxNum :: "Num \<Rightarrow> Num \<Rightarrow> Num" where
  "maxNum (Finite a) (Finite b) = Finite (max a b)"
| "maxNum _ _ = PosInfinity"

fun plusOne :: "Num \<Rightarrow> Num" where
  "plusOne (Finite a) = roundDouble (a + 1)"
| "plusOne PosInfinity = PosInfinity"

text \<open>
  \<open>String(x)\<close> for such a number (\<open>Number::toString\<close> of ECMAScript, radix 10).
  Up to \<open>2^53\<close> every whole number is a double and its neighbours are whole numbers, so
  the text is the decimal digits of the number.  Above, the text is built from the least
  number \<open>k\<close> of significant digits \<open>s\<close> and the decimal exponent \<open>n\<close> with
  \<open>s * 10^(n-k)\<close> rounding to \<open>x\<close> (the nearest such \<open>s\<close>, the even one of two
  equally near): the digits of \<open>s\<close> followed by \<open>n - k\<close> zeros when \<open>n \<le> 21\<close>,
  the exponent form \<open>d.ddde+N\<close> otherwise.

  \<open>candidates x k\<close> are the pairs \<open>(s, n)\<close> of \<open>k\<close> digits that round to \<open>x\<close>:
  \<open>n\<close> is the number of digits of \<open>x\<close>, or one more when \<open>x\<close> lies just below
  a power of ten, and \<open>s\<close> one of the two whole numbers around \<open>x / 10^(n-k)\<close>.
  Seventeen digits always suffice, so the search in \<open>shortest\<close> always finds a pair.
\<close>

definition candidates :: "int \<Rightarrow> nat \<Rightarrow> (int \<times> nat) list" where
  "candidates x k =
     concat (map (\<lambda>n. concat (map (\<lambda>s.
         if 10 ^ (k - 1) \<le> s \<and> s < 10 ^ k \<and> roundDouble (s * 10 ^ (n - k)) = Finite x
         then [(s, n)] else [])
       [x div 10 ^ (n - k), x div 10 ^ (n - k) + 1]))
     [length (StringInt x), length (StringInt x) + 1])"

definition closer :: "int \<Rightarrow> nat \<Rightarrow> int \<times> nat \<Rightarrow> int \<times> nat \<Rightarrow> int \<times> nat" where
  "closer x k a b =
     (let da = abs (fst a * 10 ^ (snd a - k) - x);
          db = abs (fst b * 10 ^ (snd b - k) - x)
      in if db < da \<or> (db = da \<and> even (fst b)) then b else a)"

definition shortest :: "int \<Rightarrow> nat \<times> int \<times> nat" where
  "shortest x =
     (case concat (map (\<lambda>k. case candidates x k of
                               [] \<Rightarrow> []
                             | c # cs \<Rightarrow> [(k, foldl (closer x k) c cs)]) [1 ..< 18]) of
        [] \<Rightarrow> (length (StringInt x), x, length (StringInt x))
      | r # _ \<Rightarrow> r)"

definition StringNum :: "Num \<Rightarrow> string" where
  "StringNum v =
     (case v of
        PosInfinity \<Rightarrow> ''Infinity''
      | Finite x \<Rightarrow>
          if x \<le> 2 ^ 53 then StringInt x
          else (case shortest x of (k, s, n) \<Rightarrow>
                  if n \<le> 21 then StringInt s @ replicate (n - k) (CHR ''0'')
                  else (if k = 1 then StringInt s
                        else take 1 (StringInt s) @ ''.'' @ drop 1 (StringInt s))
                       @ ''e+'' @ StringInt (int n - 1)))"

section \<open>The data model\<close>

text \<open>
  The type declarations at the head of the file.  A JavaScript \<open>number\<close> that carries a
  quantity, a price or a count is the type parameter \<open>'n\<close>; the functions below ask of
  it only the operations they use (\<open>0\<close>, \<open>1\<close>, \<open>+\<close>, \<open>*\<close>) and no law about them, so
  what is proved holds for floating-point arithmetic as well.
\<close>

datatype Role = admin | waiter | collectorRole

record User =
  user_id :: string
  user_dbId :: "string option"
  user_name :: string
  role :: Role
  phone :: string
  pin :: string

record 'n Item =
  item_id :: string
  item_name :: string
  price :: 'n
  stock :: "'n option"

record 'n OrderItem =
  itemId :: string
  qty :: 'n

datatype Status = Paid | Loan | Pending

record 'n Order =
  order_id :: string
  waiterId :: string
  time :: string
  items :: "'n OrderItem list"
  status :: "Status option"
  collector :: "string option"

section \<open>Order totals and order ids\<close>

text \<open>
  \<open>Object.fromEntries(xs.map((x) => [x.id, x]))\<close>: a later entry with the same id
  replaces an earlier one.
\<close>

definition itemsById :: "'n Item list \<Rightarrow> string \<rightharpoonup> 'n Item" where
  "itemsById its = map_of (rev (map (\<lambda>i. (item_id i, i)) its))"

definition usersById :: "User list \<Rightarrow> string \<rightharpoonup> User" where
  "usersById us = map_of (rev (map (\<lambda>u. (user_id u, u)) us))"

text \<open>
  \<open>itemsById[id]?.price ?? 0\<close>.  A key that no item has may still be found in
  \<open>Object.prototype\<close>; what is found there has no \<open>price\<close>, so the result is
  0 as for a key found nowhere.
\<close>

definition priceOf :: "'n::zero Item list \<Rightarrow> string \<Rightarrow> 'n" where
  "priceOf its i = (case itemsById its i of None \<Rightarrow> 0 | Some it \<Rightarrow> price it)"

definition orderTotal :: "'n::{zero,plus,times} Item list \<Rightarrow> 'n Order \<Rightarrow> 'n" where
  "orderTotal its order =
     foldl (\<lambda>sum entry. sum + qty entry * priceOf its (itemId entry)) 0 (items order)"

text \<open>The match of \<open>/^order(\d+)$/\<close>: the digit group, when the whole id has that form.\<close>

definition matchOrderId :: "string \<Rightarrow> string option" where
  "matchOrderId s =
     (if take 5 s = ''order'' \<and> drop 5 s \<noteq> [] \<and> list_all isDigit (drop 5 s)
      then Some (drop 5 s) else None)"

text \<open>
  The \<open>reduce\<close> of \<open>nextOrderId\<close>: \<open>max\<close> and \<open>num\<close> are doubles, and
  \<open>Number.isNaN(num)\<close> is the case \<open>None\<close>.
\<close>

definition maxExisting :: "'n Order list \<Rightarrow> Num" where
  "maxExisting os =
     foldl (\<lambda>mx ord.
        (case matchOrderId (order_id ord) of
           None \<Rightarrow> mx
         | Some grp \<Rightarrow> (case NumberJS grp of None \<Rightarrow> mx | Some num \<Rightarrow> maxNum mx num)))
       (Finite 0) os"

definition nextOrderId :: "'n Order list \<Rightarrow> string" where
  "nextOrderId os = ''order'' @ padStart 3 (CHR ''0'') (StringNum (plusOne (maxExisting os)))"

text \<open>
  The reading of the specification's sentence on id allocation, to compare
  \<open>nextOrderId\<close> with: the numeric suffixes of the existing ids of the form
  \<open>order<digits>\<close>, as the whole numbers their digits denote.
\<close>

definition orderSuffixes :: "'n Order list \<Rightarrow> int set" where
  "orderSuffixes os =
     {decimalValue ds | ds ord.
        ord \<in> set os \<and> order_id ord = ''order'' @ ds \<and> ds \<noteq> [] \<and> list_all isDigit ds}"

section \<open>Report rows and their export\<close>

record 'n ReportStats =
  ordersCount :: 'n
  itemsCount :: 'n
  sales :: 'n
  paid :: 'n
  loan :: 'n
  pending :: 'n

record 'n ReportRow = "'n ReportStats" +
  label :: string

text \<open>\<open>xs.join(sep)\<close> on an array of strings.\<close>

fun joinJS :: "string \<Rightarrow> string list \<Rightarrow> string" where
  "joinJS sep [] = []"
| "joinJS sep [x] = x"
| "joinJS sep (x # y # ys) = x @ sep @ joinJS sep (y # ys)"

text \<open>
  The accumulator of the \<open>reduce\<close> in \<open>exportReportCSV\<close> and in \<open>printReport\<close>: the
  running total plus one row, field by field (\<open>r.pending ?? 0\<close> is \<open>r.pending\<close>, the
  field being a number in every \<open>ReportRow\<close>).
\<close>

definition addRow :: "'n::plus ReportStats \<Rightarrow> 'n ReportRow \<Rightarrow> 'n ReportStats" where
  "addRow acc r =
     \<lparr> ordersCount = ordersCount acc + ordersCount r,
       itemsCount = itemsCount acc + itemsCount r,
       sales = sales acc + sales r,
       paid = paid acc + paid r,
       loan = loan acc + loan r,
       pending = pending acc + pending r \<rparr>"

definition zeroStats :: "'n::zero ReportStats" where
  "zeroStats = \<lparr> ordersCount = 0, itemsCount = 0, sales = 0, paid = 0, loan = 0, pending = 0 \<rparr>"

definition exportTotal :: "'n::{zero,plus} ReportRow list \<Rightarrow> 'n ReportStats" where
  "exportTotal reportRows = foldl addRow zeroStats reportRows"

text \<open>
  The cells of one line.  \<open>join\<close> turns a number cell into text with \<open>String\<close>; the
  two renderings of a number, \<open>String(x)\<close> and \<open>x.toFixed(2)\<close>, are the parameters
  \<open>str\<close> and \<open>fix2\<close>.
\<close>

definition statCells :: "('n \<Rightarrow> string) \<Rightarrow> ('n \<Rightarrow> string) \<Rightarrow> string \<Rightarrow> ('n, 'z) ReportStats_scheme \<Rightarrow> string list" where
  "statCells str fix2 lbl r =
     [lbl, str (ordersCount r), str (itemsCount r), fix2 (sales r), str (paid r), str (loan r),
      str (pending r)]"

definition csvLines :: "('n::{zero,plus} \<Rightarrow> string) \<Rightarrow> ('n \<Rightarrow> string) \<Rightarrow> 'n ReportRow list \<Rightarrow> string list list" where
  "csvLines str fix2 reportRows =
     (let header = [''Period'', ''Orders'', ''Items'', ''Sales'', ''Paid'', ''Loan'', ''Pending''];
          rows = map (\<lambda>r. statCells str fix2 (label r) r) reportRows;
          total = exportTotal reportRows
      in header # (rows @ [statCells str fix2 ''Total'' total]))"

text \<open>The text of the file \<open>reports.csv\<close> that \<open>exportReportCSV\<close> offers for download.\<close>

definition exportReportCSV :: "('n::{zero,plus} \<Rightarrow> string) \<Rightarrow> ('n \<Rightarrow> string) \<Rightarrow> 'n ReportRow list \<Rightarrow> string" where
  "exportReportCSV str fix2 reportRows =
     joinJS [CHR 0x0A] (map (joinJS '','') (csvLines str fix2 reportRows))"

text \<open>\<open>printReport\<close>: its total is the same \<open>reduce\<close>; the rows of the printed table.\<close>

definition printTotal :: "'n::{zero,plus} ReportRow list \<Rightarrow> 'n ReportStats" where
  "printTotal reportRows = foldl addRow zeroStats reportRows"

definition printCells :: "('n \<Rightarrow> string) \<Rightarrow> ('n \<Rightarrow> string) \<Rightarrow> string \<Rightarrow> ('n, 'z) ReportStats_scheme \<Rightarrow> string" where
  "printCells str fix2 lbl r =
     ''<tr><td>'' @ lbl @ ''</td><td>'' @ str (ordersCount r) @ ''</td><td>'' @ str (itemsCount r)
     @ ''</td><td>$'' @ fix2 (sales r) @ ''</td><td>'' @ str (paid r) @ ''</td><td>'' @ str (loan r)
     @ ''</td><td>'' @ str (pending r) @ ''</td></tr>''"

definition printTableRows :: "('n \<Rightarrow> string) \<Rightarrow> ('n \<Rightarrow> string) \<Rightarrow> 'n ReportRow list \<Rightarrow> string" where
  "printTableRows str fix2 reportRows =
     joinJS [] (map (\<lambda>r. printCells str fix2 (label r) r) reportRows)"

definition printTotalRow :: "('n::{zero,plus} \<Rightarrow> string) \<Rightarrow> ('n \<Rightarrow> string) \<Rightarrow> 'n ReportRow list \<Rightarrow> string" where
  "printTotalRow str fix2 reportRows =
     printCells str fix2 ''<strong>Total</strong>'' (printTotal reportRows)"

text \<open>
  The total row of the reports screen: one \<open>reduce\<close> per column,
  \<open>reportRows.reduce((s, r) => s + r.ordersCount, 0)\<close> and so on; the sales cell is
  shown through \<open>formatPrice\<close>.
\<close>

definition columnSum :: "('n ReportRow \<Rightarrow> 'n::{zero,plus}) \<Rightarrow> 'n ReportRow list \<Rightarrow> 'n" where
  "columnSum f reportRows = foldl (\<lambda>s r. s + f r) 0 reportRows"

definition formatPrice :: "('n \<Rightarrow> string) \<Rightarrow> 'n \<Rightarrow> string" where
  "formatPrice fix2 v = CHR ''$'' # fix2 v"

definition screenTotal :: "'n::{zero,plus} ReportRow list \<Rightarrow> 'n ReportStats" where
  "screenTotal reportRows =
     \<lparr> ordersCount = columnSum ordersCount reportRows,
       itemsCount = columnSum itemsCount reportRows,
       sales = columnSum sales reportRows,
       paid = columnSum paid reportRows,
       loan = columnSum loan reportRows,
       pending = columnSum pending reportRows \<rparr>"

definition screenTotalCells :: "('n::{zero,plus} \<Rightarrow> string) \<Rightarrow> ('n \<Rightarrow> string) \<Rightarrow> 'n ReportRow list \<Rightarrow> string list" where
  "screenTotalCells str fix2 reportRows =
     [''Total'', str (columnSum ordersCount reportRows), str (columnSum itemsCount reportRows),
      formatPrice fix2 (columnSum sales reportRows), str (columnSum paid reportRows),
      str (columnSum loan reportRows), str (columnSum pending reportRows)]"

section \<open>Dates\<close>

text \<open>
  A \<open>Date\<close> object is modelled by its time value, the milliseconds since
  1970-01-01T00:00:00Z, an \<open>int\<close>; an invalid date (time value \<open>NaN\<close>) is \<open>None\<close>
  where one can occur.  The methods follow the abstract operations of the ECMAScript
  specification (Day, DayFromYear, YearFromTime, MonthFromTime, DateFromTime, WeekDay,
  MakeDay, MakeDate).  Two things are taken for granted: every instant stays inside
  the range a \<open>Date\<close> can hold, and the local time zone is a fixed offset \<open>tz\<close>
  (milliseconds east of UTC) with no daylight-saving change.
\<close>

definition msPerDay :: int where
  "msPerDay = 86400000"

definition Day :: "int \<Rightarrow> int" where
  "Day t = t div msPerDay"

definition TimeWithinDay :: "int \<Rightarrow> int" where
  "TimeWithinDay t = t mod msPerDay"

definition DaysInYear :: "int \<Rightarrow> int" where
  "DaysInYear y =
     (if y mod 4 \<noteq> 0 then 365
      else if y mod 100 \<noteq> 0 then 366
      else if y mod 400 \<noteq> 0 then 365
      else 366)"

definition DayFromYear :: "int \<Rightarrow> int" where
  "DayFromYear y = 365 * (y - 1970) + (y - 1969) div 4 - (y - 1901) div 100 + (y - 1601) div 400"

text \<open>Each year starts one year's length after the one before; this makes the search for the year of a day terminate.\<close>

lemma divmod_int_unique:
  fixes k q r :: int
  assumes "0 \<le> r" "r < k"
  shows "(k * q + r) div k = q" and "(k * q + r) mod k = r"
  using assms by simp_all

lemma div_succ:
  fixes a k :: int
  assumes "0 < k"
  shows "(a + 1) div k = a div k + (if (a + 1) mod k = 0 then 1 else 0)"
proof -
  define q where "q = a div k"
  define r where "r = a mod k"
  have e: "a = k * q + r" by (simp add: q_def r_def)
  have r: "0 \<le> r" "r < k" using assms by (simp_all add: r_def)
  show ?thesis
  proof (cases "r + 1 < k")
    case True
    have e1: "a + 1 = k * q + (r + 1)" using e by simp
    have "(a + 1) div k = q" "(a + 1) mod k = r + 1"
      unfolding e1 using divmod_int_unique [of "r + 1" k q] True r by simp_all
    then show ?thesis using r by (simp add: q_def)
  next
    case False
    then have k: "r + 1 = k" using r by simp
    have e1: "a + 1 = k * (q + 1) + 0" using e k by (simp add: algebra_simps)
    have "(a + 1) div k = q + 1" "(a + 1) mod k = 0"
      unfolding e1 using divmod_int_unique [of 0 k "q + 1"] assms by simp_all
    then show ?thesis by (simp add: q_def)
  qed
qed

lemma mod_shift: "(y - k * c) mod k = (y::int) mod k"
proof -
  have "y - k * c = y + k * (- c)" by simp
  then show ?thesis by (metis mod_mult_self2)
qed

lemma m4: "(y - 1968) mod 4 = (y::int) mod 4"
  using mod_shift [of y 4 492] by simp

lemma m100: "(y - 1900) mod 100 = (y::int) mod 100"
  using mod_shift [of y 100 19] by simp

lemma m400: "(y - 1600) mod 400 = (y::int) mod 400"
  using mod_shift [of y 400 4] by simp

lemma m4_100: "(y::int) mod 100 = 0 \<Longrightarrow> y mod 4 = 0"
proof -
  assume "y mod 100 = 0"
  then have "100 dvd y" by (simp add: dvd_eq_mod_eq_0)
  moreover have "(4::int) dvd 100" by simp
  ultimately have "4 dvd y" by (rule dvd_trans [rotated])
  then show ?thesis by (simp add: dvd_eq_mod_eq_0)
qed

lemma m100_400: "(y::int) mod 400 = 0 \<Longrightarrow> y mod 100 = 0"
proof -
  assume "y mod 400 = 0"
  then have "400 dvd y" by (simp add: dvd_eq_mod_eq_0)
  moreover have "(100::int) dvd 400" by simp
  ultimately have "100 dvd y" by (rule dvd_trans [rotated])
  then show ?thesis by (simp add: dvd_eq_mod_eq_0)
qed

lemma DayFromYear_Suc: "DayFromYear (y + 1) = DayFromYear y + DaysInYear y"
proof -
  have a: "(y + 1 - 1969) div 4 = (y - 1969) div 4 + (if y mod 4 = 0 then 1 else 0)"
    using div_succ [of 4 "y - 1969"] m4 [of y] by (simp add: algebra_simps)
  have b: "(y + 1 - 1901) div 100 = (y - 1901) div 100 + (if y mod 100 = 0 then 1 else 0)"
    using div_succ [of 100 "y - 1901"] m100 [of y] by (simp add: algebra_simps)
  have c: "(y + 1 - 1601) div 400 = (y - 1601) div 400 + (if y mod 400 = 0 then 1 else 0)"
    using div_succ [of 400 "y - 1601"] m400 [of y] by (simp add: algebra_simps)
  show ?thesis
    unfolding DayFromYear_def DaysInYear_def a b c
    using m4_100 [of y] m100_400 [of y] by (simp split: if_splits)
qed

lemma DayFromYear_less: "DayFromYear y < DayFromYear (y + 1)"
  by (simp add: DayFromYear_Suc DaysInYear_def)

text \<open>
  \<open>YearFromTime(t)\<close> is the largest year \<open>y\<close> whose first day is not after the day of
  \<open>t\<close>.  It is found by going up from a year that is not too late: no year has more
  than 366 days (nor fewer than 365), so year \<open>1970 + n div 366\<close> (\<open>n div 365\<close> before
  1970) starts on or before day \<open>n\<close>.
\<close>

function yearUp :: "int \<Rightarrow> int \<Rightarrow> int" where
  "yearUp n y = (if DayFromYear (y + 1) \<le> n then yearUp n (y + 1) else y)"
  by pat_completeness auto
termination
proof (relation "measure (\<lambda>(n, y). nat (n - DayFromYear (y + 1) + 1))")
  show "wf (measure (\<lambda>(n, y). nat (n - DayFromYear (y + 1) + 1)))" by simp
next
  fix n y :: int
  assume "DayFromYear (y + 1) \<le> n"
  then show "((n, y + 1), (n, y)) \<in> measure (\<lambda>(n, y). nat (n - DayFromYear (y + 1) + 1))"
    using DayFromYear_less [of "y + 1"] by simp
qed

declare yearUp.simps [simp del]

definition YearFromDay :: "int \<Rightarrow> int" where
  "YearFromDay n = yearUp n (1970 + (if 0 \<le> n then n div 366 else n div 365))"

definition YearFromTime :: "int \<Rightarrow> int" where
  "YearFromTime t = YearFromDay (Day t)"

definition InLeapYear :: "int \<Rightarrow> int" where
  "InLeapYear t = (if DaysInYear (YearFromTime t) = 366 then 1 else 0)"

definition DayWithinYear :: "int \<Rightarrow> int" where
  "DayWithinYear t = Day t - DayFromYear (YearFromTime t)"

text \<open>The number of days of the year before month \<open>m\<close> (0 to 11); \<open>L\<close> is 1 in a leap year.\<close>

definition monthStart :: "int \<Rightarrow> int \<Rightarrow> int" where
  "monthStart m L =
     (if m = 0 then 0 else if m = 1 then 31 else if m = 2 then 59 + L
      else if m = 3 then 90 + L else if m = 4 then 120 + L else if m = 5 then 151 + L
      else if m = 6 then 181 + L else if m = 7 then 212 + L else if m = 8 then 243 + L
      else if m = 9 then 273 + L else if m = 10 then 304 + L else 334 + L)"

definition MonthFromTime :: "int \<Rightarrow> int" where
  "MonthFromTime t =
     (let d = DayWithinYear t; L = InLeapYear t in
      if d < 31 then 0 else if d < 59 + L then 1 else if d < 90 + L then 2
      else if d < 120 + L then 3 else if d < 151 + L then 4 else if d < 181 + L then 5
      else if d < 212 + L then 6 else if d < 243 + L then 7 else if d < 273 + L then 8
      else if d < 304 + L then 9 else if d < 334 + L then 10 else 11)"

definition DateFromTime :: "int \<Rightarrow> int" where
  "DateFromTime t = DayWithinYear t - monthStart (MonthFromTime t) (InLeapYear t) + 1"

text \<open>\<open>WeekDay\<close>: 0 is Sunday; 1970-01-01 was a Thursday.\<close>

definition WeekDay :: "int \<Rightarrow> int" where
  "WeekDay t = (Day t + 4) mod 7"

definition MakeDay :: "int \<Rightarrow> int \<Rightarrow> int \<Rightarrow> int" where
  "MakeDay year month date =
     (let ym = year + month div 12; mn = month mod 12 in
      DayFromYear ym + monthStart mn (if DaysInYear ym = 366 then 1 else 0) + date - 1)"

definition MakeDate :: "int \<Rightarrow> int \<Rightarrow> int" where
  "MakeDate day tm = day * msPerDay + tm"

text \<open>
  \<open>Date.UTC(year, month, date)\<close>: a year from 0 to 99 stands for 1900 to 1999, as the
  language defines it.
\<close>

definition DateUTC :: "int \<Rightarrow> int \<Rightarrow> int \<Rightarrow> int" where
  "DateUTC year month date =
     MakeDate (MakeDay (if 0 \<le> year \<and> year \<le> 99 then 1900 + year else year) month date) 0"

definition LocalTime :: "int \<Rightarrow> int \<Rightarrow> int" where
  "LocalTime tz t = t + tz"

definition getFullYear :: "int \<Rightarrow> int \<Rightarrow> int" where
  "getFullYear tz t = YearFromTime (LocalTime tz t)"

definition getMonth :: "int \<Rightarrow> int \<Rightarrow> int" where
  "getMonth tz t = MonthFromTime (LocalTime tz t)"

definition getDate :: "int \<Rightarrow> int \<Rightarrow> int" where
  "getDate tz t = DateFromTime (LocalTime tz t)"

definition setUTCDate :: "int \<Rightarrow> int \<Rightarrow> int" where
  "setUTCDate t dt = MakeDate (MakeDay (YearFromTime t) (MonthFromTime t) dt) (TimeWithinDay t)"

text \<open>\<open>d.setHours(23, 59, 59, 999)\<close>: the last millisecond of the local day of \<open>d\<close>.\<close>

definition setHoursEndOfDay :: "int \<Rightarrow> int \<Rightarrow> int" where
  "setHoursEndOfDay tz t =
     MakeDate (Day (LocalTime tz t)) (((23 * 60 + 59) * 60 + 59) * 1000 + 999) - tz"

text \<open>\<open>Math.ceil(a / b)\<close> for integers \<open>a\<close> and \<open>b > 0\<close>.\<close>

definition ceilDiv :: "int \<Rightarrow> int \<Rightarrow> int" where
  "ceilDiv a b = - ((- a) div b)"

text \<open>
  \<open>getWeekId\<close>.  Both \<open>date\<close> and \<open>yearStart\<close> are midnights UTC, so the quotient by
  86400000 is a whole number of days.
\<close>

definition getWeekId :: "int \<Rightarrow> int \<Rightarrow> string" where
  "getWeekId tz d =
     (let date0 = DateUTC (getFullYear tz d) (getMonth tz d) (getDate tz d);
          dayNum = (if WeekDay date0 = 0 then 7 else WeekDay date0);
          date = setUTCDate date0 (DateFromTime date0 + 4 - dayNum);
          yearStart = DateUTC (YearFromTime date) 0 1;
          weekNo = ceilDiv ((date - yearStart) div 86400000 + 1) 7
      in StringInt (YearFromTime date) @ ''-W'' @ StringInt weekNo)"

text \<open>
  The ISO-8601 week of a day, as the specification words it, to compare \<open>getWeekId\<close>
  with.  A day is counted from 1970-01-01 (day 0, a Thursday).  Weeks start on Monday
  (weekday 1) and end on Sunday (weekday 7); a week belongs to the year of its Thursday;
  week 1 of a year is the week of the year's first Thursday.
\<close>

definition isoWeekday :: "int \<Rightarrow> int" where
  "isoWeekday n = (n + 3) mod 7 + 1"

definition thursdayOfWeek :: "int \<Rightarrow> int" where
  "thursdayOfWeek n = n - isoWeekday n + 4"

definition firstThursday :: "int \<Rightarrow> int" where
  "firstThursday y = DayFromYear y + (4 - isoWeekday (DayFromYear y)) mod 7"

definition isoWeekNumber :: "int \<Rightarrow> int" where
  "isoWeekNumber n =
     (thursdayOfWeek n - firstThursday (YearFromDay (thursdayOfWeek n))) div 7 + 1"

definition isoWeekIdSpec :: "int \<Rightarrow> string" where
  "isoWeekIdSpec n =
     StringInt (YearFromDay (thursdayOfWeek n)) @ ''-W'' @ StringInt (isoWeekNumber n)"

section \<open>The report aggregator\<close>

datatype ReportTab = Daily | Weekly | Monthly | Yearly

datatype ReportStatus = FilterAll | FilterPaid | FilterLoan

text \<open>
  \<open>d.toISOString()\<close>: \<open>YYYY-MM-DDTHH:mm:ss.sssZ\<close> in UTC; a year outside 0 to 9999 is
  written with a sign and six digits.
\<close>

definition isoYearString :: "int \<Rightarrow> string" where
  "isoYearString y =
     (if 0 \<le> y \<and> y \<le> 9999 then padStart 4 (CHR ''0'') (StringInt y)
      else (if y < 0 then CHR ''-'' else CHR ''+'') # padStart 6 (CHR ''0'') (StringInt (abs y)))"

definition toISOString :: "int \<Rightarrow> string" where
  "toISOString t =
     isoYearString (YearFromTime t) @ ''-''
     @ padStart 2 (CHR ''0'') (StringInt (MonthFromTime t + 1)) @ ''-''
     @ padStart 2 (CHR ''0'') (StringInt (DateFromTime t)) @ ''T''
     @ padStart 2 (CHR ''0'') (StringInt (TimeWithinDay t div 3600000)) @ '':''
     @ padStart 2 (CHR ''0'') (StringInt (TimeWithinDay t div 60000 mod 60)) @ '':''
     @ padStart 2 (CHR ''0'') (StringInt (TimeWithinDay t div 1000 mod 60)) @ ''.''
     @ padStart 3 (CHR ''0'') (StringInt (TimeWithinDay t mod 1000)) @ ''Z''"

text \<open>
  The status and date filter of \<open>reportRows\<close>.  \<open>parse\<close> is \<open>new Date(s).getTime()\<close>,
  \<open>None\<close> for \<open>NaN\<close>.  \<open>reportStart\<close> and \<open>reportEnd\<close> are the texts of the two date
  inputs; an empty text gives \<open>null\<close> (the outer \<open>None\<close>), any other text a \<open>Date\<close>,
  valid or not (a comparison with \<open>NaN\<close> is false).
\<close>

definition filteredOrders ::
  "(string \<Rightarrow> int option) \<Rightarrow> int \<Rightarrow> string \<Rightarrow> string \<Rightarrow> ReportStatus \<Rightarrow> 'n Order list \<Rightarrow> 'n Order list" where
  "filteredOrders parse tz reportStart reportEnd reportStatus orders =
     (let start = (if reportStart = [] then None else Some (parse reportStart));
          end0 = (if reportEnd = [] then None else Some (parse reportEnd));
          end1 = map_option (map_option (setHoursEndOfDay tz)) end0
      in filter (\<lambda>ord.
           (case parse (time ord) of
              None \<Rightarrow> False
            | Some t \<Rightarrow>
                if (case start of Some (Some s) \<Rightarrow> t < s | _ \<Rightarrow> False) then False
                else if (case end1 of Some (Some e) \<Rightarrow> t > e | _ \<Rightarrow> False) then False
                else if reportStatus = FilterPaid \<and> status ord \<noteq> Some Paid then False
                else if reportStatus = FilterLoan \<and> status ord \<noteq> Some Loan then False
                else True)) orders)"

text \<open>The bucket key of a date under each tab.\<close>

definition reportKey :: "int \<Rightarrow> ReportTab \<Rightarrow> int \<Rightarrow> string" where
  "reportKey tz reportTab date =
     (case reportTab of
        Daily \<Rightarrow> take 10 (toISOString date)
      | Weekly \<Rightarrow> getWeekId tz date
      | Monthly \<Rightarrow> StringInt (getFullYear tz date) @ ''-''
                   @ padStart 2 (CHR ''0'') (StringInt (getMonth tz date + 1))
      | Yearly \<Rightarrow> StringInt (getFullYear tz date))"

text \<open>One order added to the statistics of its bucket.\<close>

definition addOrder :: "'n::{zero,one,plus,times} Item list \<Rightarrow> 'n Order \<Rightarrow> 'n ReportStats \<Rightarrow> 'n ReportStats" where
  "addOrder its ord current =
     (let c1 = current\<lparr> ordersCount := ordersCount current + 1 \<rparr>;
          c2 = c1\<lparr> itemsCount := itemsCount c1 + foldl (\<lambda>s i. s + qty i) 0 (items ord) \<rparr>;
          c3 = c2\<lparr> sales := sales c2
                    + foldl (\<lambda>s i. s + qty i * priceOf its (itemId i)) 0 (items ord) \<rparr>
      in if status ord = Some Loan then c3\<lparr> loan := loan c3 + 1 \<rparr>
         else if status ord = Some Paid then c3\<lparr> paid := paid c3 + 1 \<rparr>
         else c3\<lparr> pending := pending c3 + 1 \<rparr>)"

text \<open>
  The \<open>Map\<close> of buckets is an association list in insertion order: \<open>buckets.get(key)\<close> is
  \<open>map_of\<close>, \<open>buckets.set(key, v)\<close> is \<open>AList.update\<close> (the value of a key already there
  is replaced in place, a new key goes to the end).
\<close>

definition bucketStep ::
  "(string \<Rightarrow> int option) \<Rightarrow> int \<Rightarrow> 'n::{zero,one,plus,times} Item list \<Rightarrow> ReportTab
   \<Rightarrow> (string \<times> 'n ReportStats) list \<Rightarrow> 'n Order \<Rightarrow> (string \<times> 'n ReportStats) list" where
  "bucketStep parse tz its reportTab buckets ord =
     (case parse (time ord) of
        None \<Rightarrow> buckets
      | Some date \<Rightarrow>
          (let key = reportKey tz reportTab date;
               current = (case map_of buckets key of None \<Rightarrow> zeroStats | Some c \<Rightarrow> c)
           in AList.update key (addOrder its ord current) buckets))"

text \<open>
  \<open>xs.sort(cmp)\<close>.  The language asks for a stable sort and leaves the algorithm open;
  for a comparator that orders the elements consistently every algorithm returns the
  same array.  The model is insertion sort.
\<close>

fun insertJS :: "('a \<Rightarrow> 'a \<Rightarrow> int) \<Rightarrow> 'a \<Rightarrow> 'a list \<Rightarrow> 'a list" where
  "insertJS cmp x [] = [x]"
| "insertJS cmp x (y # ys) = (if cmp x y \<le> 0 then x # y # ys else y # insertJS cmp x ys)"

definition sortJS :: "('a \<Rightarrow> 'a \<Rightarrow> int) \<Rightarrow> 'a list \<Rightarrow> 'a list" where
  "sortJS cmp xs = foldr (insertJS cmp) xs []"

text \<open>
  Strings compare by code unit, the first difference deciding and a proper prefix being
  smaller: the lexicographic order of \<open>string\<close>.  The comparator
  \<open>([a], [b]) => (a > b ? -1 : 1)\<close>:
\<close>

definition compareKeys :: "string \<times> 'v \<Rightarrow> string \<times> 'v \<Rightarrow> int" where
  "compareKeys p q = (if fst p > fst q then - 1 else 1)"

definition toRow :: "string \<times> 'n ReportStats \<Rightarrow> 'n ReportRow" where
  "toRow p =
     \<lparr> ordersCount = ordersCount (snd p), itemsCount = itemsCount (snd p), sales = sales (snd p),
       paid = paid (snd p), loan = loan (snd p), pending = pending (snd p), label = fst p \<rparr>"

text \<open>The rows made of a list of orders that has passed the filter.\<close>

definition rowsOf ::
  "(string \<Rightarrow> int option) \<Rightarrow> int \<Rightarrow> 'n::{zero,one,plus,times} Item list \<Rightarrow> ReportTab
   \<Rightarrow> 'n Order list \<Rightarrow> 'n ReportRow list" where
  "rowsOf parse tz its reportTab filtered =
     (let buckets = foldl (bucketStep parse tz its reportTab) [] filtered
      in map toRow (sortJS compareKeys buckets))"

definition reportRows ::
  "(string \<Rightarrow> int option) \<Rightarrow> int \<Rightarrow> 'n::{zero,one,plus,times} Item list \<Rightarrow> 'n Order list
   \<Rightarrow> string \<Rightarrow> string \<Rightarrow> ReportTab \<Rightarrow> ReportStatus \<Rightarrow> 'n ReportRow list" where
  "reportRows parse tz its orders reportStart reportEnd reportTab reportStatus =
     rowsOf parse tz its reportTab
       (filteredOrders parse tz reportStart reportEnd reportStatus orders)"

text \<open>
  The specification's rule of inclusion, to compare the filter with.  A bound that is not
  given, or is not a date, does not bound; the end bound is moved to the last millisecond
  (23:59:59.999) of its local day.
\<close>

fun statusMatches :: "ReportStatus \<Rightarrow> Status option \<Rightarrow> bool" where
  "statusMatches FilterAll st = True"
| "statusMatches FilterPaid st = (st = Some Paid)"
| "statusMatches FilterLoan st = (st = Some Loan)"

definition rangeStart :: "(string \<Rightarrow> int option) \<Rightarrow> string \<Rightarrow> int option" where
  "rangeStart parse reportStart = (if reportStart = [] then None else parse reportStart)"

definition rangeEnd :: "(string \<Rightarrow> int option) \<Rightarrow> int \<Rightarrow> string \<Rightarrow> int option" where
  "rangeEnd parse tz reportEnd =
     (if reportEnd = [] then None else map_option (setHoursEndOfDay tz) (parse reportEnd))"

definition includedSpec ::
  "(string \<Rightarrow> int option) \<Rightarrow> int \<Rightarrow> string \<Rightarrow> string \<Rightarrow> ReportStatus \<Rightarrow> 'n Order \<Rightarrow> bool" where
  "includedSpec parse tz reportStart reportEnd reportStatus ord =
     ((case parse (time ord) of
         None \<Rightarrow> False
       | Some t \<Rightarrow>
           (case rangeStart parse reportStart of None \<Rightarrow> True | Some s \<Rightarrow> s \<le> t)
           \<and> (case rangeEnd parse tz reportEnd of None \<Rightarrow> True | Some e \<Rightarrow> t \<le> e))
      \<and> statusMatches reportStatus (status ord))"

text \<open>
  The decimal digits of \<open>n\<close> in a field of exactly \<open>k\<close> places, an auxiliary rendering
  that the padded numbers of the labels are shown to agree with.
\<close>

fun digitsK :: "nat \<Rightarrow> nat \<Rightarrow> string" where
  "digitsK 0 n = []"
| "digitsK (Suc k) n = digitsK k (n div 10) @ [digitChar (n mod 10)]"

text \<open>
  The period a label stands for, as calendar numbers, to compare the order of the labels
  with the order of time: the UTC day of a daily label, the local month of a monthly
  one, the local year of a yearly one, the ISO year and week of a weekly one.  A period
  is earlier than another in the lexicographic order of these numbers.
\<close>

definition periodOf :: "int \<Rightarrow> ReportTab \<Rightarrow> int \<Rightarrow> int \<times> int \<times> int" where
  "periodOf tz reportTab t =
     (case reportTab of
        Daily \<Rightarrow> (YearFromTime t, MonthFromTime t + 1, DateFromTime t)
      | Weekly \<Rightarrow> (YearFromDay (thursdayOfWeek (Day (LocalTime tz t))),
                   isoWeekNumber (Day (LocalTime tz t)), 1)
      | Monthly \<Rightarrow> (getFullYear tz t, getMonth tz t + 1, 1)
      | Yearly \<Rightarrow> (getFullYear tz t, 1, 1))"

fun earlier :: "int \<times> int \<times> int \<Rightarrow> int \<times> int \<times> int \<Rightarrow> bool" where
  "earlier (y1, m1, d1) (y2, m2, d2) =
     (y1 < y2 \<or> (y1 = y2 \<and> (m1 < m2 \<or> (m1 = m2 \<and> d1 < d2))))"

text \<open>
  The labels of a tab have a fixed width when the year has four digits: the daily label
  pads the year to four digits, the monthly and the yearly label print it as it is.
\<close>

definition fixedWidth :: "int \<Rightarrow> ReportTab \<Rightarrow> int \<Rightarrow> bool" where
  "fixedWidth tz reportTab t =
     (case reportTab of
        Daily \<Rightarrow> 0 \<le> YearFromTime t \<and> YearFromTime t \<le> 9999
      | Weekly \<Rightarrow> False
      | Monthly \<Rightarrow> 1000 \<le> getFullYear tz t \<and> getFullYear tz t \<le> 9999
      | Yearly \<Rightarrow> 1000 \<le> getFullYear tz t \<and> getFullYear tz t \<le> 9999)"

section \<open>The loan ledger and the database\<close>

record 'n LoanEntry =
  entry_id :: string
  orderId :: string
  amount :: 'n
  date :: string
  servedBy :: string

record 'n LoanCustomer =
  cust_id :: string
  cust_dbId :: "string option"
  cust_name :: string
  cust_phone :: string
  loans :: "(string \<times> 'n LoanEntry) list option"

text \<open>
  The real-time database under \<open>rms/\<close>, as far as the settlement touches it: the
  children of \<open>orders\<close> and of \<open>loanCustomers\<close>, each an association list from the
  child's key to the node stored there.  A node is a bag of optional fields (a field
  never written is absent); the \<open>loans\<close> of a customer are the children of its \<open>loans\<close>
  node, none when it is absent.  The items of an order are stored as an array or as a
  map from item id to a record with a \<open>qty\<close>.
\<close>

datatype 'n ItemsNode = ItemsArray "'n OrderItem list" | ItemsMap "(string \<times> 'n option) list"

record 'n OrderNode =
  node_id :: "string option"
  node_waiterId :: "string option"
  node_waiter_id :: "string option"
  node_time :: "string option"
  node_status :: "Status option"
  node_collector :: "string option"
  node_items :: "'n ItemsNode option"

record 'n CustomerNode =
  cnode_id :: "string option"
  cnode_name :: "string option"
  cnode_phone :: "string option"
  cnode_registeredBy :: "string option"
  cnode_loans :: "(string \<times> 'n LoanEntry) list"

record 'n Database =
  db_orders :: "(string \<times> 'n OrderNode) list"
  db_loanCustomers :: "(string \<times> 'n CustomerNode) list"

definition emptyOrderNode :: "'n OrderNode" where
  "emptyOrderNode =
     \<lparr> node_id = None, node_waiterId = None, node_waiter_id = None, node_time = None,
       node_status = None, node_collector = None, node_items = None \<rparr>"

definition emptyCustomerNode :: "'n CustomerNode" where
  "emptyCustomerNode =
     \<lparr> cnode_id = None, cnode_name = None, cnode_phone = None, cnode_registeredBy = None,
       cnode_loans = [] \<rparr>"

text \<open>
  \<open>update(ref(db, 'rms/orders/' + key), { status, collector })\<close>: the two fields are
  merged into the node at that path; the other fields of the node stay, and a path with
  nothing stored gets a node with these two fields only.
\<close>

definition dbUpdateOrder :: "string \<Rightarrow> Status \<Rightarrow> string \<Rightarrow> 'n Database \<Rightarrow> 'n Database" where
  "dbUpdateOrder key st col db =
     (let node = (case map_of (db_orders db) key of None \<Rightarrow> emptyOrderNode | Some n \<Rightarrow> n)
      in db\<lparr> db_orders :=
           AList.update key (node\<lparr> node_status := Some st, node_collector := Some col \<rparr>)
             (db_orders db) \<rparr>)"

text \<open>\<open>set(ref(db, 'rms/orders/' + key), payload)\<close>: the node at that path is replaced.\<close>

definition dbSetOrder :: "string \<Rightarrow> 'n OrderNode \<Rightarrow> 'n Database \<Rightarrow> 'n Database" where
  "dbSetOrder key node db = db\<lparr> db_orders := AList.update key node (db_orders db) \<rparr>"

text \<open>
  A whole entry written at \<open>rms/loanCustomers/<pathId>/loans/<entryKey>\<close>, by \<open>set\<close> or
  by an \<open>update\<close> that carries every field of the entry.
\<close>

definition dbSetLoan :: "string \<Rightarrow> string \<Rightarrow> 'n LoanEntry \<Rightarrow> 'n Database \<Rightarrow> 'n Database" where
  "dbSetLoan pathId entryKey entry db =
     (let node = (case map_of (db_loanCustomers db) pathId of
                    None \<Rightarrow> emptyCustomerNode | Some c \<Rightarrow> c)
      in db\<lparr> db_loanCustomers :=
           AList.update pathId
             (node\<lparr> cnode_loans := AList.update entryKey entry (cnode_loans node) \<rparr>)
             (db_loanCustomers db) \<rparr>)"

text \<open>
  What the listeners make of a node.  The order listener: \<open>id: order.id ?? key\<close>,
  \<open>waiterId: order.waiterId ?? order.waiter_id\<close>, \<open>status: order.status ?? 'pending'\<close>,
  \<open>collector: order.collector ?? ''\<close>, the items as an array.  A node with no waiter or
  no time gives an object outside the type \<open>Order\<close>; it is \<open>None\<close> here.
\<close>

definition itemsOfNode :: "'n::zero ItemsNode option \<Rightarrow> 'n OrderItem list" where
  "itemsOfNode x =
     (case x of
        None \<Rightarrow> []
      | Some (ItemsArray xs) \<Rightarrow> xs
      | Some (ItemsMap m) \<Rightarrow>
          map (\<lambda>(i, q). \<lparr> itemId = i, qty = (case q of None \<Rightarrow> 0 | Some v \<Rightarrow> v) \<rparr>) m)"

definition orderOfNode :: "string \<Rightarrow> 'n::zero OrderNode \<Rightarrow> 'n Order option" where
  "orderOfNode key node =
     (case (case node_waiterId node of None \<Rightarrow> node_waiter_id node | Some w \<Rightarrow> Some w) of
        None \<Rightarrow> None
      | Some w \<Rightarrow>
          (case node_time node of
             None \<Rightarrow> None
           | Some t \<Rightarrow>
               Some \<lparr> order_id = (case node_id node of None \<Rightarrow> key | Some i \<Rightarrow> i),
                      waiterId = w,
                      time = t,
                      items = itemsOfNode (node_items node),
                      status = Some (case node_status node of None \<Rightarrow> Pending | Some s \<Rightarrow> s),
                      collector = Some (case node_collector node of None \<Rightarrow> [] | Some c \<Rightarrow> c) \<rparr>))"

text \<open>
  The loan-customer listener: \<open>id: cust.id ?? dbId\<close>, \<open>dbId\<close>, \<open>loans: cust.loans ?? {}\<close>;
  the list on screen follows the keys of the database.
\<close>

definition customerOfNode :: "string \<times> 'n CustomerNode \<Rightarrow> 'n LoanCustomer option" where
  "customerOfNode p =
     (case cnode_name (snd p) of
        None \<Rightarrow> None
      | Some nm \<Rightarrow>
          (case cnode_phone (snd p) of
             None \<Rightarrow> None
           | Some ph \<Rightarrow>
               Some \<lparr> cust_id = (case cnode_id (snd p) of None \<Rightarrow> fst p | Some i \<Rightarrow> i),
                      cust_dbId = Some (fst p),
                      cust_name = nm,
                      cust_phone = ph,
                      loans = Some (cnode_loans (snd p)) \<rparr>))"

definition snapshotCustomers :: "'n Database \<Rightarrow> 'n LoanCustomer list" where
  "snapshotCustomers db = List.map_filter customerOfNode (db_loanCustomers db)"

section \<open>The state of the application and the settlement\<close>

datatype Banner = BannerSuccess string | BannerError string

text \<open>
  The outcome of one write, as the database reports it to the promise: done, or refused
  with a message, in which case nothing is stored.
\<close>

datatype WriteResult = WriteOk | WriteFailed string

datatype PromiseResult = Resolved | Rejected string

text \<open>
  The component's state that the settlement reads and writes, and the database behind
  it.  \<open>orders\<close>, \<open>loanCustomers\<close>, \<open>users\<close> and \<open>items\<close> (here \<open>items_st\<close>) are the
  lists that the listeners last stored.
\<close>

record 'n App =
  users :: "User list"
  items_st :: "'n Item list"
  orders :: "'n Order list"
  loanCustomers :: "'n LoanCustomer list"
  currentUser :: "User option"
  banner :: "Banner option"
  draftWaiter :: string
  draftQty :: "(string \<times> 'n) list"
  showOrderModal :: bool
  loanEntryModalOpen :: bool
  loanEntryCustomerId :: string
  loanEntryOrderId :: string
  loanStatusModalOpen :: bool
  loanStatusOrderId :: string
  loanStatusCustomerId :: string
  loanStatusSearch :: string
  database :: "'n Database"

text \<open>
  \<open>usersById[order.waiterId]?.name ?? order.waiterId\<close>.  \<open>usersById\<close> is a plain
  object, so a key that no user has is looked up in \<open>Object.prototype\<close>.  Of the
  properties found there, \<open>constructor\<close> is the function \<open>Object\<close>, whose
  \<open>name\<close> is \<open>Object\<close>; every other one is a function whose \<open>name\<close> is the
  key itself, or (\<open>__proto__\<close>) an object without a \<open>name\<close>, and for those, as
  for a key found nowhere, the result is \<open>order.waiterId\<close>.
\<close>

definition servedByOf :: "User list \<Rightarrow> 'n Order \<Rightarrow> string" where
  "servedByOf us order =
     (case usersById us (waiterId order) of
        Some u \<Rightarrow> user_name u
      | None \<Rightarrow> if waiterId order = ''constructor'' then ''Object'' else waiterId order)"

text \<open>
  \<open>handleCreateOrder\<close>.  \<open>pushKey\<close> is the key that \<open>push\<close> makes for the new child,
  \<open>now\<close> the text of \<open>new Date().toISOString()\<close>, \<open>wr\<close> the outcome of the write.
\<close>

definition handleCreateOrder ::
  "string \<Rightarrow> string \<Rightarrow> WriteResult \<Rightarrow> 'n::{zero,ord} App \<Rightarrow> 'n App" where
  "handleCreateOrder pushKey now wr s0 =
     (let s = s0\<lparr> banner := None \<rparr>;
          selected = filter (\<lambda>(itemId, qty). qty > 0) (draftQty s)
      in if draftWaiter s = [] then
           s\<lparr> banner := Some (BannerError ''Pick a waiter to assign the order.'') \<rparr>
         else if selected = [] then
           s\<lparr> banner := Some (BannerError ''Add at least one item before submitting.'') \<rparr>
         else
           (let orderId = nextOrderId (orders s);
                itemsMap = foldl (\<lambda>m (itemId, qty). AList.update itemId (Some qty) m) [] selected;
                payload = \<lparr> node_id = Some orderId, node_waiterId = None,
                            node_waiter_id = Some (draftWaiter s), node_time = Some now,
                            node_status = Some Pending, node_collector = Some [],
                            node_items = Some (ItemsMap itemsMap) \<rparr>
            in case wr of
                 WriteOk \<Rightarrow>
                   s\<lparr> database := dbSetOrder pushKey payload (database s),
                      draftQty := [], showOrderModal := False,
                      banner := Some (BannerSuccess ''Order captured and stock updated.'') \<rparr>
               | WriteFailed msg \<Rightarrow> s\<lparr> banner := Some (BannerError msg) \<rparr>))"

text \<open>\<open>updateOrderStatus\<close>: the path of the write is \<open>orders/<id>\<close>, \<open>id\<close> the order's id.\<close>

definition collectorFor :: "Status \<Rightarrow> 'n App \<Rightarrow> string" where
  "collectorFor st s =
     (if st = Paid \<or> st = Loan
      then (case currentUser s of None \<Rightarrow> ''Unknown'' | Some u \<Rightarrow> user_name u)
      else [])"

definition updateOrderStatus :: "string \<Rightarrow> Status \<Rightarrow> WriteResult \<Rightarrow> 'n App \<Rightarrow> 'n App" where
  "updateOrderStatus ident st wr s =
     (let col = collectorFor st s
      in case wr of
           WriteOk \<Rightarrow>
             s\<lparr> database := dbUpdateOrder ident st col (database s),
                banner := Some (BannerSuccess ''Order status updated.'') \<rparr>
         | WriteFailed msg \<Rightarrow> s\<lparr> banner := Some (BannerError msg) \<rparr>)"

definition handleStatusChange :: "'n Order \<Rightarrow> Status \<Rightarrow> WriteResult \<Rightarrow> 'n App \<Rightarrow> 'n App" where
  "handleStatusChange order st wr s =
     (if st = Loan then
        s\<lparr> loanStatusOrderId := order_id order, loanStatusModalOpen := True,
           loanStatusCustomerId := [], loanStatusSearch := [] \<rparr>
      else updateOrderStatus (order_id order) st wr s)"

text \<open>
  \<open>addLoanEntryForOrder\<close>: the promise it returns, and the state after the write.  The
  entry already there is looked for in the loans of the customer passed in, no one
  else's.
\<close>

definition loanEntryFor :: "string \<Rightarrow> 'n::{zero,plus,times} App \<Rightarrow> 'n Order \<Rightarrow> 'n LoanEntry" where
  "loanEntryFor entryId s order =
     \<lparr> entry_id = entryId, orderId = order_id order, amount = orderTotal (items_st s) order,
       date = time order, servedBy = servedByOf (users s) order \<rparr>"

definition pathIdOf :: "'n LoanCustomer \<Rightarrow> string" where
  "pathIdOf customer = (case cust_dbId customer of None \<Rightarrow> cust_id customer | Some k \<Rightarrow> k)"

definition existingEntry :: "'n Order \<Rightarrow> 'n LoanCustomer \<Rightarrow> 'n LoanEntry option" where
  "existingEntry order customer =
     find (\<lambda>l. orderId l = order_id order)
       (map snd (case loans customer of None \<Rightarrow> [] | Some ls \<Rightarrow> ls))"

definition addLoanEntryForOrder ::
  "'n Order \<Rightarrow> 'n LoanCustomer \<Rightarrow> string \<Rightarrow> WriteResult \<Rightarrow> 'n::{zero,plus,times} App
   \<Rightarrow> PromiseResult \<times> 'n App" where
  "addLoanEntryForOrder order customer pushKey wr s =
     (let pathId = pathIdOf customer;
          existing = existingEntry order customer
      in if existing \<noteq> None then (Resolved, s)
         else
           (let entry = loanEntryFor pushKey s order
            in case wr of
                 WriteOk \<Rightarrow> (Resolved, s\<lparr> database := dbSetLoan pathId pushKey entry (database s) \<rparr>)
               | WriteFailed msg \<Rightarrow> (Rejected msg, s)))"

text \<open>
  \<open>confirmLoanStatus\<close>: both writes are issued, one after the other, whatever becomes of
  the first; \<open>wrOrder\<close> and \<open>wrLoan\<close> are their outcomes.  Nothing handles a rejection
  of the second promise; its \<open>finally\<close> closes the dialog.
\<close>

definition confirmLoanStatus ::
  "string \<Rightarrow> WriteResult \<Rightarrow> WriteResult \<Rightarrow> 'n::{zero,plus,times} App \<Rightarrow> 'n App" where
  "confirmLoanStatus pushKey wrOrder wrLoan s =
     (if loanStatusOrderId s = [] \<or> loanStatusCustomerId s = [] then
        s\<lparr> banner := Some (BannerError ''Select a loan customer.'') \<rparr>
      else
        (case find (\<lambda>ord. order_id ord = loanStatusOrderId s) (orders s) of
           None \<Rightarrow> s\<lparr> banner := Some (BannerError ''Invalid selection.'') \<rparr>
         | Some order \<Rightarrow>
             (case find (\<lambda>c. cust_id c = loanStatusCustomerId s) (loanCustomers s) of
                None \<Rightarrow> s\<lparr> banner := Some (BannerError ''Invalid selection.'') \<rparr>
              | Some customer \<Rightarrow>
                  (let s1 = updateOrderStatus (order_id order) Loan wrOrder s;
                       s2 = snd (addLoanEntryForOrder order customer pushKey wrLoan s1)
                   in s2\<lparr> loanStatusModalOpen := False, loanStatusOrderId := [],
                          loanStatusCustomerId := [], loanStatusSearch := [] \<rparr>))))"


text \<open>The loan-customer listener runs after a change of the database.\<close>

definition syncCustomers :: "'n App \<Rightarrow> 'n App" where
  "syncCustomers s = s\<lparr> loanCustomers := snapshotCustomers (database s) \<rparr>"

section \<open>Example data\<close>

text \<open>
  A small restaurant for the concrete evaluations below: a waiter and a collector, one
  item at price 5, two loan customers, quantities and prices in whole numbers.
\<close>

definition exampleUsers :: "User list" where
  "exampleUsers =
     [\<lparr> user_id = ''w1'', user_dbId = Some ''-Nuser1'', user_name = ''Amina'', role = waiter,
         phone = ''+252901'', pin = ''1111'' \<rparr>,
      \<lparr> user_id = ''u2'', user_dbId = Some ''-Nuser2'', user_name = ''Bilal'', role = collectorRole,
         phone = ''+252902'', pin = ''2222'' \<rparr>]"

definition exampleCustomerNode :: "string \<Rightarrow> string \<Rightarrow> nat CustomerNode" where
  "exampleCustomerNode i nm =
     \<lparr> cnode_id = Some i, cnode_name = Some nm, cnode_phone = Some ''+25290'',
       cnode_registeredBy = Some ''u2'', cnode_loans = [] \<rparr>"

definition exampleDatabase :: "nat Database" where
  "exampleDatabase =
     \<lparr> db_orders = [],
       db_loanCustomers = [(''-NcustX'', exampleCustomerNode ''-NcustX'' ''Xasan''),
                           (''-NcustY'', exampleCustomerNode ''-NcustY'' ''Yusuf'')] \<rparr>"

text \<open>The collector Bilal is signed in; the draft holds two of item \<open>i1\<close> for waiter \<open>w1\<close>.\<close>

definition exampleApp :: "nat App" where
  "exampleApp =
     \<lparr> users = exampleUsers,
       items_st = [\<lparr> item_id = ''i1'', item_name = ''Tea'', price = 5, stock = Some 10 \<rparr>],
       orders = [],
       loanCustomers = snapshotCustomers exampleDatabase,
       currentUser = Some (exampleUsers ! 1),
       banner = None,
       draftWaiter = ''w1'',
       draftQty = [(''i1'', 2)],
       showOrderModal = True,
       loanEntryModalOpen = False,
       loanEntryCustomerId = [],
       loanEntryOrderId = [],
       loanStatusModalOpen = False,
       loanStatusOrderId = [],
       loanStatusCustomerId = [],
       loanStatusSearch = [],
       database = exampleDatabase \<rparr>"

text \<open>
  The order that \<open>handleCreateOrder\<close> stores under the pushed key \<open>-Norder1\<close>, and the
  order the listener makes of it.
\<close>

definition createdNode :: "nat OrderNode" where
  "createdNode =
     \<lparr> node_id = Some ''order001'', node_waiterId = None, node_waiter_id = Some ''w1'',
       node_time = Some ''2024-01-05T10:00:00.000Z'', node_status = Some Pending,
       node_collector = Some [], node_items = Some (ItemsMap [(''i1'', Some 2)]) \<rparr>"

definition createdOrder :: "nat Order" where
  "createdOrder =
     \<lparr> order_id = ''order001'', waiterId = ''w1'', time = ''2024-01-05T10:00:00.000Z'',
       items = [\<lparr> itemId = ''i1'', qty = 2 \<rparr>], status = Some Pending, collector = Some [] \<rparr>"

text \<open>The application after the order is created and the order listener has run.\<close>

definition exampleAppWithOrder :: "nat App" where
  "exampleAppWithOrder =
     (handleCreateOrder ''-Norder1'' ''2024-01-05T10:00:00.000Z'' WriteOk exampleApp)
       \<lparr> orders := [createdOrder] \<rparr>"

text \<open>
  The steps of a settlement as a loan on screen: the status select of the order card is
  set to loan (\<open>handleStatusChange\<close> opens the dialog), a customer is picked in the
  dialog (\<open>setLoanStatusCustomerId\<close>), the choice is confirmed, and the loan-customer
  listener sees the new state of the ledger.
\<close>

definition selectLoanCustomer :: "string \<Rightarrow> 'n App \<Rightarrow> 'n App" where
  "selectLoanCustomer cid s = s\<lparr> loanStatusCustomerId := cid \<rparr>"

definition settleLoan ::
  "'n Order \<Rightarrow> string \<Rightarrow> string \<Rightarrow> WriteResult \<Rightarrow> WriteResult \<Rightarrow> 'n::{zero,plus,times} App \<Rightarrow> 'n App" where
  "settleLoan order cid pushKey wrOrder wrLoan s =
     syncCustomers
       (confirmLoanStatus pushKey wrOrder wrLoan
          (selectLoanCustomer cid (handleStatusChange order Loan WriteOk s)))"


text \<open>
  The order ids of all entries of the ledger, customer by customer, and the two
  readings of \<open>no order is loaned twice\<close>: over the whole ledger (invariant I1 of the
  specification), and within each customer.
\<close>

definition ledgerOrderIds :: "'n Database \<Rightarrow> string list list" where
  "ledgerOrderIds db = map (\<lambda>(k, c). map (\<lambda>(ek, e). orderId e) (cnode_loans c)) (db_loanCustomers db)"



text \<open>
  The loan dialog open on the created order with customer X picked; the same with the
  order stored under its own id, \<open>orders/order001\<close>, as an order of an older database
  is; and the customer X as the listener shows it.
\<close>

definition exampleLoanDialog :: "nat App" where
  "exampleLoanDialog =
     selectLoanCustomer ''-NcustX'' (handleStatusChange createdOrder Loan WriteOk exampleAppWithOrder)"

definition exampleKeyedLoanDialog :: "nat App" where
  "exampleKeyedLoanDialog =
     exampleLoanDialog\<lparr> database := (database exampleLoanDialog)\<lparr> db_orders := [(''order001'', createdNode)] \<rparr> \<rparr>"

definition customerX :: "nat LoanCustomer" where
  "customerX =
     \<lparr> cust_id = ''-NcustX'', cust_dbId = Some ''-NcustX'', cust_name = ''Xasan'',
       cust_phone = ''+25290'', loans = Some [] \<rparr>"

definition customerY :: "nat LoanCustomer" where
  "customerY =
     \<lparr> cust_id = ''-NcustY'', cust_dbId = Some ''-NcustY'', cust_name = ''Yusuf'',
       cust_phone = ''+25290'', loans = Some [] \<rparr>"

text \<open>The ledger entry of the created order: two teas at 5, served by Amina.\<close>

definition createdEntry :: "string \<Rightarrow> nat LoanEntry" where
  "createdEntry k =
     \<lparr> entry_id = k, orderId = ''order001'', amount = 10, date = ''2024-01-05T10:00:00.000Z'',
       servedBy = ''Amina'' \<rparr>"

text \<open>
  A second order, taken in the year 999, and \<open>new Date(s).getTime()\<close> on the time
  strings of the two orders (\<open>None\<close>, for \<open>NaN\<close>, on any other string).
\<close>

definition exampleParse :: "string \<Rightarrow> int option" where
  "exampleParse s =
     (if s = ''0999-05-01T12:00:00.000Z'' then Some (- 30631348800000)
      else if s = ''2024-01-05T10:00:00.000Z'' then Some 1704448800000
      else None)"

definition oldOrder :: "nat Order" where
  "oldOrder = createdOrder\<lparr> order_id := ''order002'', time := ''0999-05-01T12:00:00.000Z'' \<rparr>"

text \<open>
  The created order stored under its own id; the ledger after it has been settled as a
  loan of customer X; and the same after the order has been set back to pending.
\<close>

definition exampleKeyedApp :: "nat App" where
  "exampleKeyedApp =
     exampleAppWithOrder\<lparr> database := (database exampleAppWithOrder)\<lparr> db_orders := [(''order001'', createdNode)] \<rparr> \<rparr>"

definition exampleLoanedToX :: "nat App" where
  "exampleLoanedToX = settleLoan createdOrder ''-NcustX'' ''-Nloan1'' WriteOk WriteOk exampleKeyedApp"

definition examplePendingAgain :: "nat App" where
  "examplePendingAgain = handleStatusChange createdOrder Pending WriteOk exampleLoanedToX"

text \<open>Customer X with that entry, as the listener shows it.\<close>

definition customerXLoaned :: "nat LoanCustomer" where
  "customerXLoaned = customerX\<lparr> loans := Some [(''-Nloan1'', createdEntry ''-Nloan1'')] \<rparr>"

section \<open>Properties: order id allocation\<close>

lemma matchOrderId_Some:
  "matchOrderId s = Some ds \<longleftrightarrow> s = ''order'' @ ds \<and> ds \<noteq> [] \<and> list_all isDigit ds"
proof
  assume "matchOrderId s = Some ds"
  then have a: "take 5 s = ''order''" "drop 5 s = ds" "ds \<noteq> []" "list_all isDigit ds"
    by (auto simp: matchOrderId_def split: if_splits)
  have "s = take 5 s @ drop 5 s" by simp
  with a show "s = ''order'' @ ds \<and> ds \<noteq> [] \<and> list_all isDigit ds" by metis
next
  assume "s = ''order'' @ ds \<and> ds \<noteq> [] \<and> list_all isDigit ds"
  then show "matchOrderId s = Some ds" by (simp add: matchOrderId_def)
qed

lemma orderSuffixes_Nil: "orderSuffixes [] = {}"
  by (simp add: orderSuffixes_def)

lemma orderSuffixes_Cons:
  "orderSuffixes (x # xs) =
     (case matchOrderId (order_id x) of None \<Rightarrow> {} | Some ds \<Rightarrow> {decimalValue ds}) \<union> orderSuffixes xs"
proof (cases "matchOrderId (order_id x)")
  case None
  then have "\<And>ds. \<not> (order_id x = ''order'' @ ds \<and> ds \<noteq> [] \<and> list_all isDigit ds)"
    using matchOrderId_Some [of "order_id x"] by simp
  then show ?thesis using None by (auto simp: orderSuffixes_def)
next
  case (Some ds)
  then have "order_id x = ''order'' @ ds \<and> ds \<noteq> [] \<and> list_all isDigit ds"
    using matchOrderId_Some by blast
  then show ?thesis using Some by (auto simp: orderSuffixes_def)
qed

lemma finite_orderSuffixes: "finite (orderSuffixes os)"
  by (induction os) (auto simp: orderSuffixes_Nil orderSuffixes_Cons split: option.splits)

lemma StringNat_small: "n < 10 \<Longrightarrow> StringNat n = [digitChar n]"
  by (simp add: StringNat.simps)

lemma StringNat_big: "10 \<le> n \<Longrightarrow> StringNat n = StringNat (n div 10) @ [digitChar (n mod 10)]"
  by (simp add: StringNat.simps [of n])

lemma bitLength_pos: "0 < n \<Longrightarrow> bitLength n = Suc (bitLength (n div 2))"
  by (simp add: bitLength.simps [of n])

lemma bitLength_zero: "bitLength 0 = 0"
  by (simp add: bitLength.simps [of 0])

lemma bitLength_2_53: "bitLength 9007199254740992 = 54"
  by (simp add: bitLength_pos bitLength_zero)

lemma bitLength_2_53_1: "bitLength 9007199254740993 = 54"
  by (simp add: bitLength_pos bitLength_zero)

lemma roundDouble_exact: "n \<le> 2 ^ 53 \<Longrightarrow> roundDouble n = Finite n"
proof (cases "n < 2 ^ 53")
  case True
  then show ?thesis by (simp add: roundDouble_def)
next
  case False
  assume "n \<le> 2 ^ 53"
  with False have "n = 9007199254740992" by simp
  then show ?thesis by (simp add: roundDouble_def bitLength_2_53 Let_def)
qed

lemma roundDouble_2_53_1: "roundDouble 9007199254740993 = Finite 9007199254740992"
  by (simp add: roundDouble_def bitLength_2_53_1 Let_def)

lemma decimalValue_nonneg_aux:
  "0 \<le> a \<Longrightarrow> list_all isDigit ds \<Longrightarrow> 0 \<le> foldl (\<lambda>a c. 10 * a + digitVal c) a ds"
proof (induction ds arbitrary: a)
  case Nil
  then show ?case by simp
next
  case (Cons c cs)
  from Cons.prems have "isDigit c" by simp
  then have "0 \<le> digitVal c" by (auto simp: isDigit_def digitVal_def)
  with Cons.prems have "0 \<le> 10 * a + digitVal c" by simp
  with Cons show ?case by simp
qed

lemma maxExisting_fold:
  "0 \<le> a \<Longrightarrow> a < 2 ^ 53 \<Longrightarrow> \<forall>n \<in> orderSuffixes os. n < 2 ^ 53 \<Longrightarrow>
   foldl (\<lambda>mx ord.
        (case matchOrderId (order_id ord) of
           None \<Rightarrow> mx
         | Some grp \<Rightarrow> (case NumberJS grp of None \<Rightarrow> mx | Some num \<Rightarrow> maxNum mx num)))
       (Finite a) os = Finite (Max (insert a (orderSuffixes os)))"
proof (induction os arbitrary: a)
  case Nil
  then show ?case by (simp add: orderSuffixes_Nil)
next
  case (Cons x xs)
  show ?case
  proof (cases "matchOrderId (order_id x)")
    case None
    with Cons.prems have "\<forall>n \<in> orderSuffixes xs. n < 2 ^ 53" by (simp add: orderSuffixes_Cons)
    with Cons.IH [of a] Cons.prems None show ?thesis by (simp add: orderSuffixes_Cons)
  next
    case (Some ds)
    let ?d = "decimalValue ds"
    from Some Cons.prems have d: "?d < 2 ^ 53" and rest: "\<forall>n \<in> orderSuffixes xs. n < 2 ^ 53"
      by (simp_all add: orderSuffixes_Cons)
    from Some have m: "ds \<noteq> []" "list_all isDigit ds" by (simp_all add: matchOrderId_Some)
    have num: "NumberJS ds = Some (Finite ?d)"
      using m d by (simp add: NumberJS_def roundDouble_exact)
    have b: "0 \<le> max a ?d" "max a ?d < 2 ^ 53" using Cons.prems d by simp_all
    have fin: "finite (orderSuffixes xs)" by (rule finite_orderSuffixes)
    have "Max (insert (max a ?d) (orderSuffixes xs))
        = Max (insert a (insert ?d (orderSuffixes xs)))"
      using fin by (cases "orderSuffixes xs = {}") (simp_all add: max.assoc)
    then show ?thesis using Some num Cons.IH [OF b rest] by (simp add: orderSuffixes_Cons)
  qed
qed

lemma Max_suffixes_bounds:
  assumes "\<forall>n \<in> orderSuffixes os. n < 2 ^ 53"
  shows "0 \<le> Max (insert 0 (orderSuffixes os))" "Max (insert 0 (orderSuffixes os)) < 2 ^ 53"
proof -
  have fin: "finite (insert 0 (orderSuffixes os))" by (simp add: finite_orderSuffixes)
  show "0 \<le> Max (insert 0 (orderSuffixes os))" using fin by (simp add: finite_orderSuffixes)
  have "Max (insert 0 (orderSuffixes os)) \<in> insert 0 (orderSuffixes os)"
    using fin by (intro Max_in) simp_all
  with assms show "Max (insert 0 (orderSuffixes os)) < 2 ^ 53" by auto
qed

text \<open>
  Claim C10, as the code has it.  The suffixes are read and incremented as doubles.  When
  every numeric suffix among the existing ids of the form \<open>order<digits>\<close> is below
  \<open>2^53\<close>, the id allocated to a new order is \<open>order\<close> followed by one plus the
  largest of them (0 when no id has that form, so for the empty list as well), padded with
  zeros to three digits; the first id is \<open>order001\<close>.
\<close>

theorem nextOrderId_max_plus_one:
  assumes "\<forall>n \<in> orderSuffixes os. n < 2 ^ 53"
  shows "nextOrderId os
           = ''order'' @ padStart 3 (CHR ''0'') (StringInt (Max (insert 0 (orderSuffixes os)) + 1))
         \<and> nextOrderId ([] :: 'n Order list) = ''order001''"
proof
  let ?m = "Max (insert 0 (orderSuffixes os))"
  have me: "maxExisting os = Finite ?m"
    unfolding maxExisting_def using maxExisting_fold [of 0 os] assms by simp
  have "?m + 1 \<le> 2 ^ 53" using Max_suffixes_bounds [OF assms] by simp
  then have "plusOne (maxExisting os) = Finite (?m + 1)" "?m + 1 \<le> 2 ^ 53"
    using me by (simp_all add: roundDouble_exact)
  then show "nextOrderId os = ''order'' @ padStart 3 (CHR ''0'') (StringInt (?m + 1))"
    by (simp add: nextOrderId_def StringNum_def)
  show "nextOrderId ([] :: 'n Order list) = ''order001''"
    by (simp add: nextOrderId_def maxExisting_def roundDouble_def StringNum_def StringInt_def
        padStart_def StringNat_small digitChar_def eval_nat_numeral)
qed

lemma decimalValue_example7: "decimalValue ''007'' = 7"
  by (simp add: decimalValue_def digitVal_def)

text \<open>
  The orders \<open>order007\<close> and \<open>-Norder1\<close>: the only numeric suffix is 7, and the
  next id is \<open>order008\<close>.
\<close>

theorem nextOrderId_max_plus_one_witness:
  "orderSuffixes [createdOrder\<lparr> order_id := ''order007'' \<rparr>, createdOrder\<lparr> order_id := ''-Norder1'' \<rparr>] = {7}
   \<and> nextOrderId [createdOrder\<lparr> order_id := ''order007'' \<rparr>, createdOrder\<lparr> order_id := ''-Norder1'' \<rparr>] = ''order008''"
proof -
  have s: "orderSuffixes [createdOrder\<lparr> order_id := ''order007'' \<rparr>, createdOrder\<lparr> order_id := ''-Norder1'' \<rparr>] = {7}"
    by (simp add: orderSuffixes_Cons orderSuffixes_Nil createdOrder_def matchOrderId_def
        isDigit_def decimalValue_example7)
  then have h: "\<forall>n \<in> orderSuffixes [createdOrder\<lparr> order_id := ''order007'' \<rparr>, createdOrder\<lparr> order_id := ''-Norder1'' \<rparr>]. n < 2 ^ 53"
    by simp
  have "StringInt 8 = ''8''" by (simp add: StringInt_def StringNat_small digitChar_def)
  then show ?thesis
    using nextOrderId_max_plus_one [where ?'n = nat, OF h] s h by (simp add: padStart_def eval_nat_numeral)
qed

lemma decimalValue_2_53: "decimalValue ''9007199254740992'' = 9007199254740992"
  by (simp add: decimalValue_def digitVal_def)

lemma StringInt_2_53: "StringInt 9007199254740992 = ''9007199254740992''"
  by (simp add: StringInt_def StringNat_big StringNat_small digitChar_def)

text \<open>
  Without the bound the id is not one plus the largest suffix: \<open>2^53 + 1\<close> is not a
  double, the sum rounds back to \<open>2^53\<close>, and the id allocated next to
  \<open>order9007199254740992\<close> is \<open>order9007199254740992\<close> again.
\<close>

theorem nextOrderId_repeats_counterexample:
  "nextOrderId [createdOrder\<lparr> order_id := ''order9007199254740992'' \<rparr>] = ''order9007199254740992''"
  by (simp add: nextOrderId_def maxExisting_def createdOrder_def matchOrderId_def isDigit_def
      NumberJS_def decimalValue_2_53 roundDouble_exact roundDouble_2_53_1 StringNum_def
      StringInt_2_53 padStart_def)

lemma decimalValue_10_21: "decimalValue ''1000000000000000000000'' = 1000000000000000000000"
  by (simp add: decimalValue_def digitVal_def)

lemma length_StringInt_10_21: "length (StringInt 1000000000000000000000) = 22"
  by (simp add: StringInt_def StringNat_big StringNat_small)

lemma StringInt_small_examples: "StringInt 1 = ''1''" "StringInt 21 = ''21''"
  by (simp_all add: StringInt_def StringNat_big StringNat_small digitChar_def)

lemma roundDouble_10_21: "roundDouble 1000000000000000000000 = Finite 1000000000000000000000"
  "roundDouble 1000000000000000000001 = Finite 1000000000000000000000"
  by (simp_all add: roundDouble_def bitLength_pos bitLength_zero Let_def)

lemma candidates_10_21: "candidates 1000000000000000000000 (Suc 0) = [(1, 22)]"
  by (simp add: candidates_def length_StringInt_10_21 roundDouble_def bitLength_pos bitLength_zero Let_def)

lemma shortest_10_21: "shortest 1000000000000000000000 = (1, 1, 22)"
  by (simp add: shortest_def candidates_10_21 upt_conv_Cons del: upt_Suc)

text \<open>
  From \<open>10^21\<close> on the number is printed in exponent form: next to
  \<open>order1000000000000000000000\<close> the id allocated is \<open>order1e+21\<close>, which
  the pattern \<open>order<digits>\<close> no longer matches.
\<close>

lemma nextOrderId_exponent_form:
  "nextOrderId [createdOrder\<lparr> order_id := ''order1000000000000000000000'' \<rparr>] = ''order1e+21''"
  by (simp add: nextOrderId_def maxExisting_def createdOrder_def matchOrderId_def isDigit_def
      NumberJS_def decimalValue_10_21 roundDouble_10_21 StringNum_def shortest_10_21
      StringInt_small_examples padStart_def)

section \<open>Properties: the exported grand total\<close>

lemma foldl_addRow:
  "foldl addRow acc rs =
     \<lparr> ordersCount = foldl (\<lambda>s r. s + ordersCount r) (ordersCount acc) rs,
       itemsCount = foldl (\<lambda>s r. s + itemsCount r) (itemsCount acc) rs,
       sales = foldl (\<lambda>s r. s + sales r) (sales acc) rs,
       paid = foldl (\<lambda>s r. s + paid r) (paid acc) rs,
       loan = foldl (\<lambda>s r. s + loan r) (loan acc) rs,
       pending = foldl (\<lambda>s r. s + pending r) (pending acc) rs \<rparr>"
proof (induction rs arbitrary: acc)
  case Nil
  show ?case by simp
next
  case (Cons r rs)
  show ?case by (simp add: Cons.IH) (simp add: addRow_def)
qed

lemma exportTotal_screenTotal: "exportTotal rs = screenTotal rs"
  by (simp add: exportTotal_def screenTotal_def columnSum_def foldl_addRow zeroStats_def)

text \<open>
  Claim C8.  For every list of report rows, the grand total of the CSV export and the one
  of the printable document are, field by field (orders, items, sales, paid, loan,
  pending), the sums that the total row of the screen computes over the same rows, added
  in the same order from 0, so the exported sales total is the very number shown on
  screen, whatever the arithmetic of \<open>+\<close> is; the last line of the CSV file is
  \<open>Total\<close> followed by these sums.
\<close>

theorem export_total_matches_screen:
  "exportTotal rs = screenTotal rs
   \<and> printTotal rs = screenTotal rs
   \<and> sales (exportTotal rs) = columnSum sales rs
   \<and> last (csvLines str fix2 rs) = statCells str fix2 ''Total'' (screenTotal rs)
   \<and> printTotalRow str fix2 rs = printCells str fix2 ''<strong>Total</strong>'' (screenTotal rs)"
  using exportTotal_screenTotal [of rs]
  by (simp add: printTotal_def exportTotal_def csvLines_def Let_def printTotalRow_def screenTotal_def)

section \<open>Properties: the calendar\<close>

lemma yearUp_bounds:
  "DayFromYear y \<le> n \<Longrightarrow> DayFromYear (yearUp n y) \<le> n \<and> n < DayFromYear (yearUp n y + 1)"
proof (induction n y rule: yearUp.induct)
  case (1 n y)
  show ?case
  proof (cases "DayFromYear (y + 1) \<le> n")
    case True
    then show ?thesis using "1.IH" by (simp add: yearUp.simps [of n y])
  next
    case False
    then show ?thesis using "1.prems" by (simp add: yearUp.simps [of n y])
  qed
qed

lemma DayFromYear_1970: "DayFromYear 1970 = 0"
  by (simp add: DayFromYear_def)

lemma DaysInYear_range: "365 \<le> DaysInYear y \<and> DaysInYear y \<le> 366"
  by (simp add: DaysInYear_def)

lemma DayFromYear_upper: "0 \<le> k \<Longrightarrow> DayFromYear (1970 + k) \<le> 366 * k"
proof (induction k rule: int_ge_induct)
  case base
  show ?case by (simp add: DayFromYear_1970)
next
  case (step i)
  have "DayFromYear (1970 + (i + 1)) = DayFromYear (1970 + i) + DaysInYear (1970 + i)"
    using DayFromYear_Suc [of "1970 + i"] by (simp add: add.assoc)
  then show ?case using step.IH DaysInYear_range [of "1970 + i"] by simp
qed

lemma DayFromYear_lower: "k \<le> 0 \<Longrightarrow> DayFromYear (1970 + k) \<le> 365 * k"
proof (induction k rule: int_le_induct)
  case base
  show ?case by (simp add: DayFromYear_1970)
next
  case (step i)
  have "DayFromYear (1970 + (i - 1) + 1) = DayFromYear (1970 + (i - 1)) + DaysInYear (1970 + (i - 1))"
    by (rule DayFromYear_Suc)
  moreover have "1970 + (i - 1) + 1 = 1970 + i" by simp
  ultimately have "DayFromYear (1970 + (i - 1)) = DayFromYear (1970 + i) - DaysInYear (1970 + (i - 1))"
    by simp
  then show ?case using step.IH DaysInYear_range [of "1970 + (i - 1)"] by simp
qed

lemma YearFromDay_bounds:
  "DayFromYear (YearFromDay n) \<le> n \<and> n < DayFromYear (YearFromDay n + 1)"
proof -
  have "DayFromYear (1970 + (if 0 \<le> n then n div 366 else n div 365)) \<le> n"
  proof (cases "0 \<le> n")
    case True
    then have "0 \<le> n div 366" by simp
    then have "DayFromYear (1970 + n div 366) \<le> 366 * (n div 366)" by (rule DayFromYear_upper)
    moreover have "366 * (n div 366) \<le> n" by simp
    ultimately show ?thesis using True by simp
  next
    case False
    then have "n div 365 \<le> 0" by simp
    then have "DayFromYear (1970 + n div 365) \<le> 365 * (n div 365)" by (rule DayFromYear_lower)
    moreover have "365 * (n div 365) \<le> n" by simp
    ultimately show ?thesis using False by simp
  qed
  then show ?thesis unfolding YearFromDay_def by (rule yearUp_bounds)
qed

lemma MonthFromTime_range: "0 \<le> MonthFromTime t \<and> MonthFromTime t \<le> 11"
  by (simp add: MonthFromTime_def Let_def)

lemma MakeDay_roundtrip:
  "MakeDay (YearFromTime t) (MonthFromTime t) dt = Day t - DateFromTime t + dt"
proof -
  have "MonthFromTime t div 12 = 0" "MonthFromTime t mod 12 = MonthFromTime t"
    using MonthFromTime_range [of t] by simp_all
  then show ?thesis
    by (simp add: MakeDay_def Let_def DateFromTime_def DayWithinYear_def InLeapYear_def)
qed

section \<open>Properties: the ISO week\<close>

lemma residue7: "0 \<le> (r::int) \<Longrightarrow> r < 7 \<Longrightarrow> r = 0 \<or> r = 1 \<or> r = 2 \<or> r = 3 \<or> r = 4 \<or> r = 5 \<or> r = 6"
  by arith

lemma isoWeekday_range: "1 \<le> isoWeekday n \<and> isoWeekday n \<le> 7"
  by (simp add: isoWeekday_def)

lemma to_thursday: "(n + 6 - (n + 3) mod 7) mod 7 = (3::int)"
proof -
  have a: "n + 3 - (n + 3) mod 7 = 7 * ((n + 3) div 7)" by (rule minus_mod_eq_mult_div)
  have b: "n + 6 - (n + 3) mod 7 = 7 * ((n + 3) div 7) + 3" using a by linarith
  show ?thesis unfolding b by simp
qed

lemma isoWeekday_thursdayOfWeek: "isoWeekday (thursdayOfWeek n) = 4"
proof -
  have c: "n - ((n + 3) mod 7 + 1) + 4 + 3 = n + 6 - (n + 3) mod 7" by linarith
  show ?thesis unfolding thursdayOfWeek_def isoWeekday_def c to_thursday by simp
qed

lemma thursdayOfWeek_near: "n - 3 \<le> thursdayOfWeek n \<and> thursdayOfWeek n \<le> n + 3"
  using isoWeekday_range [of n] by (simp add: thursdayOfWeek_def)

lemma firstThursday_props:
  "isoWeekday (firstThursday y) = 4 \<and> DayFromYear y \<le> firstThursday y
   \<and> firstThursday y < DayFromYear y + 7"
proof -
  define d where "d = DayFromYear y"
  define e where "e = (4 - isoWeekday d) mod 7"
  have e: "0 \<le> e" "e < 7" by (simp_all add: e_def)
  have "4 - ((d + 3) mod 7 + 1) = 3 - (d + 3) mod 7" by linarith
  then have e': "e = (3 - (d + 3) mod 7) mod 7" by (simp only: e_def isoWeekday_def)
  have "d + e + 3 = d + 3 + e" by linarith
  then have "(d + e + 3) mod 7 = (d + 3 + (3 - (d + 3) mod 7) mod 7) mod 7"
    by (simp only: e')
  also have "\<dots> = (d + 3 + (3 - (d + 3) mod 7)) mod 7" by (rule mod_add_right_eq)
  also have "d + 3 + (3 - (d + 3) mod 7) = d + 6 - (d + 3) mod 7" by linarith
  also have "(d + 6 - (d + 3) mod 7) mod 7 = 3" by (rule to_thursday)
  finally have "isoWeekday (d + e) = 4" by (simp only: isoWeekday_def)
  then show ?thesis using e by (simp add: firstThursday_def d_def e_def)
qed

lemma dayNum_isoWeekday: "(if (n + 4) mod 7 = 0 then 7 else (n + 4) mod 7) = isoWeekday n"
proof -
  define r where "r = n mod 7"
  have r: "r = 0 \<or> r = 1 \<or> r = 2 \<or> r = 3 \<or> r = 4 \<or> r = 5 \<or> r = 6"
    by (rule residue7) (simp_all add: r_def)
  have a: "(n + 4) mod 7 = (r + 4) mod 7" "(n + 3) mod 7 = (r + 3) mod 7"
    by (simp_all add: r_def mod_add_left_eq)
  show ?thesis unfolding isoWeekday_def a using r by auto
qed

lemma weekNo_spec:
  assumes "isoWeekday th = 4"
  shows "ceilDiv (th - j + 1) 7 = (th - (j + (4 - isoWeekday j) mod 7)) div 7 + 1"
proof -
  define k where "k = (th + 3) div 7"
  define q where "q = j div 7"
  define r where "r = j mod 7"
  have "(th + 3) mod 7 = 3" using assms by (simp add: isoWeekday_def)
  then have "th + 3 = 7 * k + 3" unfolding k_def by (metis mult_div_mod_eq)
  then have th: "th = 7 * k" by simp
  have j: "j = 7 * q + r" by (simp add: q_def r_def)
  have r: "r = 0 \<or> r = 1 \<or> r = 2 \<or> r = 3 \<or> r = 4 \<or> r = 5 \<or> r = 6"
    by (rule residue7) (simp_all add: r_def)
  have w: "(j + 3) mod 7 = (r + 3) mod 7" by (simp add: r_def mod_add_left_eq)
  have l: "- (th - j + 1) = 7 * (q - k) + (r - 1)" by (simp add: th j algebra_simps)
  have lhs: "ceilDiv (th - j + 1) 7 = k - q - (r - 1) div 7"
    unfolding ceilDiv_def l by simp
  have rhs: "(th - (j + e)) div 7 = k - q + (- (r + e)) div 7" for e
  proof -
    have "th - (j + e) = 7 * (k - q) + (- (r + e))" by (simp add: th j algebra_simps)
    then show ?thesis by simp
  qed
  show ?thesis unfolding lhs rhs isoWeekday_def w using r by auto
qed

lemma Day_midnight: "Day (n * msPerDay) = n" "TimeWithinDay (n * msPerDay) = 0"
  by (simp_all add: Day_def TimeWithinDay_def msPerDay_def)

lemma fullYear_plain: "y < 0 \<or> 99 < y \<Longrightarrow> (if 0 \<le> y \<and> y \<le> 99 then 1900 + y else y) = (y::int)"
  by auto

lemma DateUTC_fields:
  "YearFromTime t < 0 \<or> 99 < YearFromTime t \<Longrightarrow>
   DateUTC (YearFromTime t) (MonthFromTime t) (DateFromTime t) = Day t * msPerDay"
  by (simp only: DateUTC_def fullYear_plain MakeDay_roundtrip MakeDate_def) simp

lemma setUTCDate_shift:
  "setUTCDate (n * msPerDay) (DateFromTime (n * msPerDay) + k) = (n + k) * msPerDay"
  by (simp add: setUTCDate_def MakeDay_roundtrip MakeDate_def Day_midnight)

lemma DateUTC_yearStart:
  "y < 0 \<or> 99 < y \<Longrightarrow> DateUTC y 0 1 = DayFromYear y * msPerDay"
  by (simp only: DateUTC_def fullYear_plain) (simp add: MakeDay_def monthStart_def MakeDate_def)

lemma days_between: "(a * msPerDay - b * msPerDay) div 86400000 = a - b"
proof -
  have "a * msPerDay - b * msPerDay = (a - b) * 86400000" by (simp add: msPerDay_def algebra_simps)
  then show ?thesis by simp
qed

lemma getWeekId_steps:
  assumes "getFullYear tz d < 0 \<or> 99 < getFullYear tz d"
    and "YearFromDay (thursdayOfWeek (Day (LocalTime tz d))) < 0
         \<or> 99 < YearFromDay (thursdayOfWeek (Day (LocalTime tz d)))"
  shows "getWeekId tz d = isoWeekIdSpec (Day (LocalTime tz d))"
proof -
  define n where "n = Day (LocalTime tz d)"
  define th where "th = thursdayOfWeek n"
  define y where "y = YearFromDay th"
  have date0: "DateUTC (getFullYear tz d) (getMonth tz d) (getDate tz d) = n * msPerDay"
    using assms(1) DateUTC_fields [of "LocalTime tz d"]
    by (simp add: getFullYear_def getMonth_def getDate_def n_def)
  have wd: "WeekDay (n * msPerDay) = (n + 4) mod 7"
    by (simp add: WeekDay_def Day_midnight)
  have dayNum: "(if WeekDay (n * msPerDay) = 0 then 7 else WeekDay (n * msPerDay)) = isoWeekday n"
    unfolding wd by (rule dayNum_isoWeekday)
  have date: "setUTCDate (n * msPerDay) (DateFromTime (n * msPerDay) + 4 - isoWeekday n) = th * msPerDay"
  proof -
    have eq: "DateFromTime (n * msPerDay) + 4 - isoWeekday n = DateFromTime (n * msPerDay) + (4 - isoWeekday n)"
      by linarith
    have "n + (4 - isoWeekday n) = th" unfolding th_def thursdayOfWeek_def by linarith
    then show ?thesis unfolding eq setUTCDate_shift by (simp only:)
  qed
  have yr: "YearFromTime (th * msPerDay) = y"
    by (simp add: YearFromTime_def Day_midnight y_def)
  have ys: "DateUTC y 0 1 = DayFromYear y * msPerDay"
    using assms(2) by (intro DateUTC_yearStart) (simp add: y_def th_def n_def)
  have wk: "ceilDiv (th - DayFromYear y + 1) 7 = isoWeekNumber n"
    using weekNo_spec [OF isoWeekday_thursdayOfWeek, of n "DayFromYear y"]
    by (simp add: isoWeekNumber_def firstThursday_def th_def y_def)
  have "getWeekId tz d = StringInt y @ ''-W'' @ StringInt (ceilDiv (th - DayFromYear y + 1) 7)"
    unfolding getWeekId_def date0 Let_def dayNum date yr ys days_between ..
  then have "getWeekId tz d = StringInt y @ ''-W'' @ StringInt (isoWeekNumber n)"
    by (simp only: wk)
  then show ?thesis
    by (simp only: isoWeekIdSpec_def y_def th_def n_def)
qed


lemma example_day_2024_12_31:
  "MakeDay 2024 11 31 = 20088" "isoWeekday 20088 = 2" "YearFromDay 20088 = 2024"
  "YearFromDay (thursdayOfWeek 20088) = 2025" "isoWeekIdSpec 20088 = ''2025-W1''"
  by code_simp+

text \<open>
  Claim C7, as amended.  For every instant whose local calendar year, and the year of the
  Thursday of its week, lie outside 0 to 99, the weekly key that \<open>getWeekId\<close> computes
  is the ISO-8601 week identifier of the local calendar day: the year of the Thursday of
  the day's Monday-to-Sunday week, \<open>-W\<close>, and the number of that week counted from the
  week of the year's first Thursday.  For every instant on the local day 2024-12-31 (a
  Tuesday) the key is \<open>2025-W1\<close>.
\<close>

theorem getWeekId_iso_week:
  "((getFullYear tz d < 0 \<or> 99 < getFullYear tz d)
     \<and> (YearFromDay (thursdayOfWeek (Day (LocalTime tz d))) < 0
          \<or> 99 < YearFromDay (thursdayOfWeek (Day (LocalTime tz d))))
    \<longrightarrow> getWeekId tz d = isoWeekIdSpec (Day (LocalTime tz d)))
   \<and> (Day (LocalTime tz d) = MakeDay 2024 11 31 \<longrightarrow> getWeekId tz d = ''2025-W1'')"
proof (intro conjI impI)
  assume "(getFullYear tz d < 0 \<or> 99 < getFullYear tz d)
     \<and> (YearFromDay (thursdayOfWeek (Day (LocalTime tz d))) < 0
          \<or> 99 < YearFromDay (thursdayOfWeek (Day (LocalTime tz d))))"
  then show "getWeekId tz d = isoWeekIdSpec (Day (LocalTime tz d))"
    using getWeekId_steps [of tz d] by blast
next
  assume "Day (LocalTime tz d) = MakeDay 2024 11 31"
  then have n: "Day (LocalTime tz d) = 20088" by (simp only: example_day_2024_12_31)
  have "getFullYear tz d = 2024"
    by (simp only: getFullYear_def YearFromTime_def n example_day_2024_12_31)
  moreover have "YearFromDay (thursdayOfWeek (Day (LocalTime tz d))) = 2025"
    by (simp only: n example_day_2024_12_31)
  ultimately have "getWeekId tz d = isoWeekIdSpec (Day (LocalTime tz d))"
    using getWeekId_steps [of tz d] by simp
  then show "getWeekId tz d = ''2025-W1''" by (simp only: n example_day_2024_12_31)
qed

theorem getWeekId_iso_week_witness:
  "getWeekId 0 1735646400000 = isoWeekIdSpec (Day (LocalTime 0 1735646400000))
   \<and> getWeekId 0 1735646400000 = ''2025-W1''"
proof -
  have a: "getFullYear 0 1735646400000 = 2024" by code_simp
  have b: "Day (LocalTime 0 1735646400000) = 20088" by code_simp
  have c: "YearFromDay (thursdayOfWeek 20088) = 2025" by code_simp
  have d: "MakeDay 2024 11 31 = 20088" by code_simp
  show ?thesis using getWeekId_iso_week [of 0 1735646400000] by (simp add: a b c d) metis
qed

text \<open>
  As the claim is worded, for every date, it fails: \<open>Date.UTC\<close> reads a year from 0
  to 99 as 1900 to 1999, so for 4 January of the year 50 (noon UTC, local zone UTC), whose
  ISO week is week 1 of the year 50, \<open>getWeekId\<close> answers \<open>1950-W1\<close>.
\<close>

theorem getWeekId_year_50_counterexample:
  "getFullYear 0 (- 60588993600000) = 50
   \<and> getWeekId 0 (- 60588993600000) = ''1950-W1''
   \<and> isoWeekIdSpec (Day (LocalTime 0 (- 60588993600000))) = ''50-W1''"
proof (intro conjI)
  show "getFullYear 0 (- 60588993600000) = 50" by code_simp
  show "getWeekId 0 (- 60588993600000) = ''1950-W1''" by code_simp
  show "isoWeekIdSpec (Day (LocalTime 0 (- 60588993600000))) = ''50-W1''" by code_simp
qed

section \<open>Properties: the report filter\<close>

lemma filteredOrders_spec:
  "filteredOrders parse tz rs re st os = filter (includedSpec parse tz rs re st) os"
  unfolding filteredOrders_def includedSpec_def rangeStart_def rangeEnd_def Let_def
  by (rule filter_cong [OF refl]) (cases st; auto split: option.splits)

lemma setHoursEndOfDay_local:
  "LocalTime tz (setHoursEndOfDay tz e) = Day (LocalTime tz e) * msPerDay + 86399999"
  by (simp add: setHoursEndOfDay_def LocalTime_def MakeDate_def)

lemma setHoursEndOfDay_same_day:
  "Day (LocalTime tz (setHoursEndOfDay tz e)) = Day (LocalTime tz e)
   \<and> TimeWithinDay (LocalTime tz (setHoursEndOfDay tz e)) = msPerDay - 1"
proof -
  have "(Day (LocalTime tz e) * 86400000 + 86399999) div 86400000 = Day (LocalTime tz e)"
    by simp
  moreover have "(Day (LocalTime tz e) * 86400000 + 86399999) mod 86400000 = 86399999"
    by simp
  ultimately show ?thesis
    unfolding setHoursEndOfDay_local by (simp add: Day_def TimeWithinDay_def msPerDay_def)
qed

text \<open>
  Claim C6.  For every list of orders, date range and status filter, the aggregator
  keeps an order if and only if its time parses to a valid instant, the instant lies
  between the start and the end of the range, both included, the end being moved to
  23:59:59.999 of its local day, and the order matches the status filter: \<open>all\<close> admits
  every status, \<open>paid\<close> and \<open>loan\<close> admit that status alone, so a pending order (or one
  with no status) is left out under either of them.  The rows of the report are the
  rows made of exactly the orders kept.
\<close>

theorem reportRows_filter:
  "filteredOrders parse tz rs re st os = filter (includedSpec parse tz rs re st) os
   \<and> reportRows parse tz its os rs re tab st
       = rowsOf parse tz its tab (filter (includedSpec parse tz rs re st) os)
   \<and> LocalTime tz (setHoursEndOfDay tz e) = Day (LocalTime tz e) * msPerDay + 86399999
   \<and> Day (LocalTime tz (setHoursEndOfDay tz e)) = Day (LocalTime tz e)
   \<and> includedSpec parse tz rs re FilterAll (ord\<lparr>status := s\<rparr>)
       = includedSpec parse tz rs re FilterAll ord
   \<and> \<not> includedSpec parse tz rs re FilterPaid (ord\<lparr>status := Some Pending\<rparr>)
   \<and> \<not> includedSpec parse tz rs re FilterLoan (ord\<lparr>status := Some Pending\<rparr>)
   \<and> \<not> includedSpec parse tz rs re FilterPaid (ord\<lparr>status := None\<rparr>)
   \<and> \<not> includedSpec parse tz rs re FilterLoan (ord\<lparr>status := None\<rparr>)
   \<and> \<not> includedSpec parse tz rs re FilterPaid (ord\<lparr>status := Some Loan\<rparr>)
   \<and> \<not> includedSpec parse tz rs re FilterLoan (ord\<lparr>status := Some Paid\<rparr>)"
  using filteredOrders_spec [of parse tz rs re st os] setHoursEndOfDay_local [of tz e]
    setHoursEndOfDay_same_day [of tz e]
  by (simp add: reportRows_def includedSpec_def)

section \<open>Properties: the order of the labels\<close>

lemma digit_cases:
  "d < 10 \<Longrightarrow> d = 0 \<or> d = 1 \<or> d = 2 \<or> d = 3 \<or> d = 4 \<or> d = 5 \<or> d = 6 \<or> d = 7 \<or> d = 8 \<or> d = (9::nat)"
  by arith

lemma of_char_digitChar: "d < 10 \<Longrightarrow> of_char (digitChar d) = 48 + d"
  using digit_cases [of d] by (auto simp: digitChar_def)

lemma digitChar_less: "a < 10 \<Longrightarrow> b < 10 \<Longrightarrow> digitChar a < digitChar b \<longleftrightarrow> a < b"
  by (simp add: less_char_def of_char_digitChar)

lemma digitChar_eq: "a < 10 \<Longrightarrow> b < 10 \<Longrightarrow> digitChar a = digitChar b \<longleftrightarrow> a = b"
proof
  assume "a < 10" "b < 10" "digitChar a = digitChar b"
  then have "(of_char (digitChar a) :: nat) = of_char (digitChar b)" by simp
  then show "a = b" using \<open>a < 10\<close> \<open>b < 10\<close> by (simp add: of_char_digitChar)
qed simp

lemma append_less_same_length:
  fixes xs ys :: "'a::linorder list"
  shows "length xs = length ys \<Longrightarrow> xs @ zs < ys @ ws \<longleftrightarrow> xs < ys \<or> (xs = ys \<and> zs < ws)"
proof (induction xs ys rule: list_induct2)
  case Nil
  show ?case by simp
next
  case (Cons x xs y ys)
  then show ?case by (auto simp: Cons_less_Cons)
qed

lemma length_digitsK: "length (digitsK k n) = k"
  by (induction k arbitrary: n) simp_all

lemma lex10:
  "r1 < 10 \<Longrightarrow> r2 < 10 \<Longrightarrow>
   10 * q1 + r1 < 10 * q2 + r2 \<longleftrightarrow> q1 < q2 \<or> (q1 = q2 \<and> r1 < (r2::nat))"
  by arith

lemma div_mod_10_less:
  "(n::nat) < m \<longleftrightarrow> n div 10 < m div 10 \<or> (n div 10 = m div 10 \<and> n mod 10 < m mod 10)"
  using lex10 [of "n mod 10" "m mod 10" "n div 10" "m div 10"] by simp

lemma div_mod_10_eq:
  "(n::nat) = m \<longleftrightarrow> n div 10 = m div 10 \<and> n mod 10 = m mod 10"
  by (metis div_mult_mod_eq)

lemma digitsK_order:
  "n < 10 ^ k \<Longrightarrow> m < 10 ^ k \<Longrightarrow>
   (digitsK k n < digitsK k m \<longleftrightarrow> n < m) \<and> (digitsK k n = digitsK k m \<longleftrightarrow> n = m)"
proof (induction k arbitrary: n m)
  case 0
  then show ?case by simp
next
  case (Suc k)
  have d: "n div 10 < 10 ^ k" "m div 10 < 10 ^ k"
    using Suc.prems by (simp_all add: less_mult_imp_div_less mult.commute)
  have r: "n mod 10 < 10" "m mod 10 < 10" by simp_all
  note ih = Suc.IH [OF d]
  have a: "digitsK (Suc k) n < digitsK (Suc k) m \<longleftrightarrow>
      digitsK k (n div 10) < digitsK k (m div 10)
      \<or> (digitsK k (n div 10) = digitsK k (m div 10) \<and> [digitChar (n mod 10)] < [digitChar (m mod 10)])"
    by (simp add: append_less_same_length length_digitsK)
  have b: "[digitChar (n mod 10)] < [digitChar (m mod 10)] \<longleftrightarrow> n mod 10 < m mod 10"
    by (simp add: Cons_less_Cons digitChar_less [OF r])
  have "digitsK (Suc k) n < digitsK (Suc k) m \<longleftrightarrow> n < m"
    unfolding a b using ih div_mod_10_less [of n m] by simp
  moreover have "digitsK (Suc k) n = digitsK (Suc k) m \<longleftrightarrow> n = m"
    using ih digitChar_eq [OF r] div_mod_10_eq [of n m] by simp
  ultimately show ?case by simp
qed

lemma length_StringNat_pos: "0 < length (StringNat n)"
  by (cases "n < 10") (simp_all add: StringNat_small StringNat_big)

lemma digitsK_zero: "digitsK k 0 = replicate k (digitChar 0)"
  by (induction k) (simp_all add: replicate_append_same)

lemma digitChar_0: "digitChar 0 = CHR ''0''"
  by (simp add: digitChar_def)

lemma length_StringNat_le: "n < 10 ^ k \<Longrightarrow> 0 < k \<Longrightarrow> length (StringNat n) \<le> k"
proof (induction k arbitrary: n)
  case 0
  then show ?case by simp
next
  case (Suc k)
  show ?case
  proof (cases "n < 10")
    case True
    then show ?thesis by (simp add: StringNat_small)
  next
    case False
    then have k: "0 < k" using Suc.prems by (cases k) simp_all
    have "n div 10 < 10 ^ k" using Suc.prems by (simp add: less_mult_imp_div_less mult.commute)
    then have "length (StringNat (n div 10)) \<le> k" using k by (rule Suc.IH)
    then show ?thesis using False by (simp add: StringNat_big)
  qed
qed

lemma padStart_StringNat:
  "n < 10 ^ k \<Longrightarrow> 0 < k \<Longrightarrow> padStart k (CHR ''0'') (StringNat n) = digitsK k n"
proof (induction k arbitrary: n)
  case 0
  then show ?case by simp
next
  case (Suc k)
  show ?case
  proof (cases "n < 10")
    case True
    then show ?thesis
      by (simp add: StringNat_small padStart_def digitsK_zero digitChar_0)
  next
    case False
    then have k: "0 < k" using Suc.prems by (cases k) simp_all
    have d: "n div 10 < 10 ^ k" using Suc.prems by (simp add: less_mult_imp_div_less mult.commute)
    have "padStart k (CHR ''0'') (StringNat (n div 10)) = digitsK k (n div 10)"
      using d k by (rule Suc.IH)
    then show ?thesis using False by (simp add: StringNat_big padStart_def)
  qed
qed

lemma length_StringNat_ge: "10 ^ k \<le> n \<Longrightarrow> k < length (StringNat n)"
proof (induction k arbitrary: n)
  case 0
  show ?case by (rule length_StringNat_pos)
next
  case (Suc k)
  then have n: "10 \<le> n" by (metis power_Suc le_trans mult.right_neutral mult_le_mono2 one_le_numeral one_le_power)
  have "10 ^ k \<le> n div 10" using Suc.prems by (simp add: less_eq_div_iff_mult_less_eq mult.commute)
  then have "k < length (StringNat (n div 10))" by (rule Suc.IH)
  then show ?case using n by (simp add: StringNat_big)
qed

lemma StringNat_four: "1000 \<le> n \<Longrightarrow> n \<le> 9999 \<Longrightarrow> StringNat n = digitsK 4 n"
proof -
  assume a: "1000 \<le> n" "n \<le> 9999"
  have "10 ^ 3 \<le> n" using a by simp
  then have "3 < length (StringNat n)" by (rule length_StringNat_ge)
  then have "padStart 4 (CHR ''0'') (StringNat n) = StringNat n" by (simp add: padStart_def)
  moreover have "padStart 4 (CHR ''0'') (StringNat n) = digitsK 4 n"
    using a by (intro padStart_StringNat) simp_all
  ultimately show ?thesis by simp
qed

lemma set_insertJS: "set (insertJS cmp x ys) = insert x (set ys)"
  by (induction ys) auto

lemma set_sortJS: "set (sortJS cmp xs) = set xs"
  by (induction xs) (simp_all add: sortJS_def set_insertJS)

lemma length_insertJS: "length (insertJS cmp x ys) = Suc (length ys)"
  by (induction ys) auto

lemma length_sortJS: "length (sortJS cmp xs) = length xs"
  by (induction xs) (simp_all add: sortJS_def length_insertJS)

lemma compareKeys_le: "compareKeys p q \<le> 0 \<longleftrightarrow> fst q < fst p"
  by (simp add: compareKeys_def)

lemma sorted_insertJS:
  "sorted_wrt (\<lambda>p q. fst q < fst p) ys \<Longrightarrow> fst x \<notin> fst ` set ys \<Longrightarrow>
   sorted_wrt (\<lambda>p q. fst q < fst p) (insertJS compareKeys x ys)"
proof (induction ys)
  case Nil
  show ?case by simp
next
  case (Cons y ys)
  show ?case
  proof (cases "fst y < fst x")
    case True
    then have "\<forall>z \<in> set ys. fst z < fst x" using Cons.prems(1) by fastforce
    then show ?thesis using True Cons.prems(1) by (simp add: compareKeys_le)
  next
    case False
    then have lt: "fst x < fst y" using Cons.prems(2) by auto
    have "sorted_wrt (\<lambda>p q. fst q < fst p) (insertJS compareKeys x ys)"
      using Cons.prems by (intro Cons.IH) auto
    then show ?thesis using False lt Cons.prems(1) by (simp add: compareKeys_le set_insertJS)
  qed
qed

lemma sorted_sortJS:
  "distinct (map fst xs) \<Longrightarrow> sorted_wrt (\<lambda>p q. fst q < fst p) (sortJS compareKeys xs)"
proof (induction xs)
  case Nil
  show ?case by (simp add: sortJS_def)
next
  case (Cons x xs)
  have "sorted_wrt (\<lambda>p q. fst q < fst p) (sortJS compareKeys xs)"
    using Cons by simp
  moreover have "fst x \<notin> fst ` set (sortJS compareKeys xs)"
    using Cons.prems by (simp add: set_sortJS)
  ultimately have "sorted_wrt (\<lambda>p q. fst q < fst p) (insertJS compareKeys x (sortJS compareKeys xs))"
    by (rule sorted_insertJS)
  then show ?case by (simp add: sortJS_def)
qed

lemma distinct_bucketStep:
  "distinct (map fst bs) \<Longrightarrow> distinct (map fst (bucketStep parse tz its tab bs ord))"
  by (simp add: bucketStep_def Let_def distinct_update split: option.splits)

lemma distinct_buckets:
  "distinct (map fst bs) \<Longrightarrow> distinct (map fst (foldl (bucketStep parse tz its tab) bs xs))"
  by (induction xs arbitrary: bs) (simp_all add: distinct_bucketStep)

lemma label_toRow: "label (toRow p) = fst p"
  by (simp add: toRow_def)

lemma rowsOf_sorted:
  "sorted_wrt (\<lambda>a b. label b < label a) (rowsOf parse tz its tab xs)"
proof -
  have "distinct (map fst (foldl (bucketStep parse tz its tab) [] xs))"
    by (rule distinct_buckets) simp
  then have "sorted_wrt (\<lambda>p q. fst q < fst p)
      (sortJS compareKeys (foldl (bucketStep parse tz its tab) [] xs))"
    by (rule sorted_sortJS)
  then show ?thesis
    by (simp add: rowsOf_def sorted_wrt_map label_toRow)
qed

lemma keys_bucketStep:
  "fst ` set (bucketStep parse tz its tab bs ord)
     = fst ` set bs \<union> (case parse (time ord) of None \<Rightarrow> {} | Some t \<Rightarrow> {reportKey tz tab t})"
proof (cases "parse (time ord)")
  case None
  then show ?thesis by (simp add: bucketStep_def)
next
  case (Some t)
  have "set (map fst (AList.update k v bs)) = insert k (set (map fst bs))" for k v
    by (auto simp: update_keys)
  then show ?thesis using Some by (simp add: bucketStep_def Let_def)
qed

lemma keys_buckets:
  "fst ` set (foldl (bucketStep parse tz its tab) bs xs)
     = fst ` set bs \<union> {reportKey tz tab t | t ord. ord \<in> set xs \<and> parse (time ord) = Some t}"
proof (induction xs arbitrary: bs)
  case Nil
  show ?case by simp
next
  case (Cons x xs)
  show ?case
    by (cases "parse (time x)") (auto simp: Cons.IH keys_bucketStep)
qed

lemma rowsOf_labels:
  "set (map label (rowsOf parse tz its tab xs))
     = {reportKey tz tab t | t ord. ord \<in> set xs \<and> parse (time ord) = Some t}"
proof -
  have "set (map label (rowsOf parse tz its tab xs))
      = fst ` set (sortJS compareKeys (foldl (bucketStep parse tz its tab) [] xs))"
    by (simp add: rowsOf_def label_toRow image_image)
  then show ?thesis by (simp add: set_sortJS keys_buckets)
qed

lemma DayWithinYear_range:
  "0 \<le> DayWithinYear t \<and> DayWithinYear t < DaysInYear (YearFromTime t)"
  using YearFromDay_bounds [of "Day t"] DayFromYear_Suc [of "YearFromDay (Day t)"]
  by (simp add: DayWithinYear_def YearFromTime_def)

lemma DateFromTime_range: "1 \<le> DateFromTime t \<and> DateFromTime t \<le> 31"
proof -
  define d where "d = DayWithinYear t"
  define L where "L = InLeapYear t"
  have L: "L = 0 \<or> L = 1" by (simp add: L_def InLeapYear_def)
  have "DaysInYear (YearFromTime t) = 365 + L"
    using DaysInYear_range [of "YearFromTime t"] by (auto simp: L_def InLeapYear_def DaysInYear_def)
  then have d: "0 \<le> d" "d < 365 + L" using DayWithinYear_range [of t] by (simp_all add: d_def)
  have "DateFromTime t =
      d - monthStart
           (if d < 31 then 0 else if d < 59 + L then 1 else if d < 90 + L then 2
            else if d < 120 + L then 3 else if d < 151 + L then 4 else if d < 181 + L then 5
            else if d < 212 + L then 6 else if d < 243 + L then 7 else if d < 273 + L then 8
            else if d < 304 + L then 9 else if d < 334 + L then 10 else 11) L + 1"
    by (simp add: DateFromTime_def MonthFromTime_def Let_def d_def L_def)
  then show ?thesis using d L by (auto simp: monthStart_def)
qed

lemma StringInt_nonneg: "0 \<le> i \<Longrightarrow> StringInt i = StringNat (nat i)"
  by (simp add: StringInt_def)

lemma pad2_digits:
  "0 \<le> i \<Longrightarrow> i < 100 \<Longrightarrow> padStart 2 (CHR ''0'') (StringInt i) = digitsK 2 (nat i)"
  by (simp add: StringInt_nonneg padStart_StringNat)

lemma year4_digits:
  "1000 \<le> y \<Longrightarrow> y \<le> 9999 \<Longrightarrow> StringInt y = digitsK 4 (nat y)"
  by (simp add: StringInt_nonneg StringNat_four)

lemma isoYearString_digits:
  "0 \<le> y \<Longrightarrow> y \<le> 9999 \<Longrightarrow> isoYearString y = digitsK 4 (nat y)"
  by (simp add: isoYearString_def StringInt_nonneg padStart_StringNat)

lemma yearly_key:
  "fixedWidth tz Yearly t \<Longrightarrow> reportKey tz Yearly t = digitsK 4 (nat (getFullYear tz t))"
  by (simp add: fixedWidth_def reportKey_def year4_digits)

lemma monthly_key:
  "fixedWidth tz Monthly t \<Longrightarrow>
   reportKey tz Monthly t
     = digitsK 4 (nat (getFullYear tz t)) @ CHR ''-'' # digitsK 2 (nat (getMonth tz t + 1))"
  using MonthFromTime_range [of "LocalTime tz t"]
  by (simp add: fixedWidth_def reportKey_def year4_digits pad2_digits getMonth_def)

lemma daily_key:
  "fixedWidth tz Daily t \<Longrightarrow>
   reportKey tz Daily t
     = digitsK 4 (nat (YearFromTime t)) @ CHR ''-'' # digitsK 2 (nat (MonthFromTime t + 1))
       @ CHR ''-'' # digitsK 2 (nat (DateFromTime t))"
proof -
  assume "fixedWidth tz Daily t"
  then have y: "isoYearString (YearFromTime t) = digitsK 4 (nat (YearFromTime t))"
    by (simp add: fixedWidth_def isoYearString_digits)
  have m: "padStart 2 (CHR ''0'') (StringInt (MonthFromTime t + 1)) = digitsK 2 (nat (MonthFromTime t + 1))"
    using MonthFromTime_range [of t] by (intro pad2_digits) simp_all
  have d: "padStart 2 (CHR ''0'') (StringInt (DateFromTime t)) = digitsK 2 (nat (DateFromTime t))"
    using DateFromTime_range [of t] by (intro pad2_digits) simp_all
  show ?thesis
    unfolding reportKey_def toISOString_def y m d by (simp add: length_digitsK)
qed

lemma digitsK4_less:
  "0 \<le> a \<Longrightarrow> a \<le> 9999 \<Longrightarrow> 0 \<le> b \<Longrightarrow> b \<le> 9999 \<Longrightarrow>
   (digitsK 4 (nat a) < digitsK 4 (nat b) \<longleftrightarrow> a < b)
   \<and> (digitsK 4 (nat a) = digitsK 4 (nat b) \<longleftrightarrow> a = b)"
  using digitsK_order [of "nat a" 4 "nat b"] by auto

lemma digitsK2_less:
  "0 \<le> a \<Longrightarrow> a < 100 \<Longrightarrow> 0 \<le> b \<Longrightarrow> b < 100 \<Longrightarrow>
   (digitsK 2 (nat a) < digitsK 2 (nat b) \<longleftrightarrow> a < b)
   \<and> (digitsK 2 (nat a) = digitsK 2 (nat b) \<longleftrightarrow> a = b)"
  using digitsK_order [of "nat a" 2 "nat b"] by auto

lemma yearly_order:
  assumes "fixedWidth tz Yearly t1" "fixedWidth tz Yearly t2"
  shows "reportKey tz Yearly t2 < reportKey tz Yearly t1
     \<longleftrightarrow> earlier (periodOf tz Yearly t2) (periodOf tz Yearly t1)"
proof -
  have r: "0 \<le> getFullYear tz t1" "getFullYear tz t1 \<le> 9999"
    "0 \<le> getFullYear tz t2" "getFullYear tz t2 \<le> 9999"
    using assms by (simp_all add: fixedWidth_def)
  show ?thesis
    unfolding yearly_key [OF assms(1)] yearly_key [OF assms(2)]
    using digitsK4_less [OF r(3,4,1,2)] by (simp add: periodOf_def)
qed

lemma monthly_order:
  assumes "fixedWidth tz Monthly t1" "fixedWidth tz Monthly t2"
  shows "reportKey tz Monthly t2 < reportKey tz Monthly t1
     \<longleftrightarrow> earlier (periodOf tz Monthly t2) (periodOf tz Monthly t1)"
proof -
  have r: "0 \<le> getFullYear tz t1" "getFullYear tz t1 \<le> 9999"
    "0 \<le> getFullYear tz t2" "getFullYear tz t2 \<le> 9999"
    using assms by (simp_all add: fixedWidth_def)
  have m: "0 \<le> getMonth tz t1 + 1" "getMonth tz t1 + 1 < 100"
    "0 \<le> getMonth tz t2 + 1" "getMonth tz t2 + 1 < 100"
    using MonthFromTime_range [of "LocalTime tz t1"] MonthFromTime_range [of "LocalTime tz t2"]
    by (simp_all add: getMonth_def)
  show ?thesis
    unfolding monthly_key [OF assms(1)] monthly_key [OF assms(2)]
    using digitsK4_less [OF r(3,4,1,2)] digitsK2_less [OF m(3,4,1,2)]
    by (simp add: periodOf_def append_less_same_length length_digitsK Cons_less_Cons)
qed

lemma daily_order:
  assumes "fixedWidth tz Daily t1" "fixedWidth tz Daily t2"
  shows "reportKey tz Daily t2 < reportKey tz Daily t1
     \<longleftrightarrow> earlier (periodOf tz Daily t2) (periodOf tz Daily t1)"
proof -
  have r: "0 \<le> YearFromTime t1" "YearFromTime t1 \<le> 9999"
    "0 \<le> YearFromTime t2" "YearFromTime t2 \<le> 9999"
    using assms by (simp_all add: fixedWidth_def)
  have m: "0 \<le> MonthFromTime t1 + 1" "MonthFromTime t1 + 1 < 100"
    "0 \<le> MonthFromTime t2 + 1" "MonthFromTime t2 + 1 < 100"
    using MonthFromTime_range [of t1] MonthFromTime_range [of t2] by simp_all
  have d: "0 \<le> DateFromTime t1" "DateFromTime t1 < 100"
    "0 \<le> DateFromTime t2" "DateFromTime t2 < 100"
    using DateFromTime_range [of t1] DateFromTime_range [of t2] by simp_all
  have inner: "digitsK 2 (nat (MonthFromTime t2 + 1)) @ CHR ''-'' # digitsK 2 (nat (DateFromTime t2))
      < digitsK 2 (nat (MonthFromTime t1 + 1)) @ CHR ''-'' # digitsK 2 (nat (DateFromTime t1))
    \<longleftrightarrow> MonthFromTime t2 < MonthFromTime t1
        \<or> (MonthFromTime t2 = MonthFromTime t1 \<and> DateFromTime t2 < DateFromTime t1)"
    using digitsK2_less [OF m(3,4,1,2)] digitsK2_less [OF d(3,4,1,2)]
    by (auto simp: append_less_same_length length_digitsK Cons_less_Cons)
  show ?thesis
    unfolding daily_key [OF assms(1)] daily_key [OF assms(2)]
    using digitsK4_less [OF r(3,4,1,2)] inner
    by (auto simp: periodOf_def append_less_same_length length_digitsK Cons_less_Cons)
qed

lemma label_order_chronological:
  "fixedWidth tz tab t1 \<Longrightarrow> fixedWidth tz tab t2 \<Longrightarrow>
   reportKey tz tab t2 < reportKey tz tab t1 \<longleftrightarrow> earlier (periodOf tz tab t2) (periodOf tz tab t1)"
  by (cases tab) (simp_all add: daily_order monthly_order yearly_order, simp add: fixedWidth_def)

text \<open>
  The weekly labels are no part of that: week 9 is printed \<open>W9\<close>, week 10 \<open>W10\<close>, and
  the label of the earlier week is the greater string.
\<close>

lemma weekly_labels_not_chronological:
  "reportKey 0 Weekly 1709121600000 = ''2024-W9''
   \<and> reportKey 0 Weekly 1709726400000 = ''2024-W10''
   \<and> ''2024-W10'' < ''2024-W9''
   \<and> earlier (periodOf 0 Weekly 1709121600000) (periodOf 0 Weekly 1709726400000)"
proof (intro conjI)
  show "reportKey 0 Weekly 1709121600000 = ''2024-W9''" by code_simp
  show "reportKey 0 Weekly 1709726400000 = ''2024-W10''" by code_simp
  show "''2024-W10'' < ''2024-W9''" by (simp add: Cons_less_Cons less_char_def)
  show "earlier (periodOf 0 Weekly 1709121600000) (periodOf 0 Weekly 1709726400000)" by code_simp
qed

text \<open>
  Claim C9, as the code has it.  For every list of orders and every tab, the rows of the
  report stand in strictly descending lexicographic order of their labels, and the labels
  are the keys of the orders kept by the filter.  The daily label is cut from the ISO
  text of the date and is zero-padded; the monthly and the yearly label print the year as
  it is, without padding.  So one label is greater than another exactly when its period
  is the later one (the most recent period first) for the daily tab over the years 0 to
  9999, and for the monthly and yearly tabs over the years 1000 to 9999 only.
\<close>

theorem reportRows_sorted_descending:
  "sorted_wrt (\<lambda>a b. label b < label a) (reportRows parse tz its os rs re tab st)
   \<and> set (map label (reportRows parse tz its os rs re tab st))
       = {reportKey tz tab t | t ord.
            ord \<in> set (filteredOrders parse tz rs re st os) \<and> parse (time ord) = Some t}
   \<and> (fixedWidth tz tab t1 \<and> fixedWidth tz tab t2 \<longrightarrow>
        (reportKey tz tab t2 < reportKey tz tab t1
           \<longleftrightarrow> earlier (periodOf tz tab t2) (periodOf tz tab t1)))"
proof (intro conjI impI)
  show "sorted_wrt (\<lambda>a b. label b < label a) (reportRows parse tz its os rs re tab st)"
    unfolding reportRows_def by (rule rowsOf_sorted)
  show "set (map label (reportRows parse tz its os rs re tab st))
       = {reportKey tz tab t | t ord.
            ord \<in> set (filteredOrders parse tz rs re st os) \<and> parse (time ord) = Some t}"
    unfolding reportRows_def by (rule rowsOf_labels)
  assume "fixedWidth tz tab t1 \<and> fixedWidth tz tab t2"
  then show "reportKey tz tab t2 < reportKey tz tab t1
           \<longleftrightarrow> earlier (periodOf tz tab t2) (periodOf tz tab t1)"
    using label_order_chronological [of tz tab t1 t2] by blast
qed

theorem reportRows_sorted_descending_witness:
  "fixedWidth 0 Daily 1735646400000 \<and> fixedWidth 0 Daily 1704456000000
   \<and> reportKey 0 Daily 1735646400000 = ''2024-12-31''
   \<and> reportKey 0 Daily 1704456000000 = ''2024-01-05''
   \<and> reportKey 0 Daily 1704456000000 < reportKey 0 Daily 1735646400000"
proof -
  have a: "fixedWidth 0 Daily 1735646400000" by code_simp
  have b: "fixedWidth 0 Daily 1704456000000" by code_simp
  have c: "earlier (periodOf 0 Daily 1704456000000) (periodOf 0 Daily 1735646400000)" by code_simp
  have d: "reportKey 0 Daily 1735646400000 = ''2024-12-31''" by code_simp
  have e: "reportKey 0 Daily 1704456000000 = ''2024-01-05''" by code_simp
  have "reportKey 0 Daily 1704456000000 < reportKey 0 Daily 1735646400000"
    using reportRows_sorted_descending [of "\<lambda>s. None" 0 "[] :: nat Item list" "[]" "[]" "[]" Daily FilterAll
        1735646400000 1704456000000] a b c
    by blast
  then show ?thesis using a b d e by blast
qed

text \<open>
  As the claim is worded, for every order collection with the monthly and yearly labels
  taken as zero-padded, it fails: the year 999 is printed \<open>999\<close>, not \<open>0999\<close>,
  and an order of May 999 is listed before an order of January 2024, on the yearly and
  on the monthly tab.
\<close>

theorem unpadded_year_labels_counterexample:
  "toISOString (- 30631348800000) = ''0999-05-01T12:00:00.000Z''
   \<and> toISOString 1704448800000 = ''2024-01-05T10:00:00.000Z''
   \<and> map label (reportRows exampleParse 0 ([] :: nat Item list) [createdOrder, oldOrder] [] [] Yearly FilterAll)
       = [''999'', ''2024'']
   \<and> map label (reportRows exampleParse 0 ([] :: nat Item list) [createdOrder, oldOrder] [] [] Monthly FilterAll)
       = [''999-05'', ''2024-01'']
   \<and> earlier (periodOf 0 Yearly (- 30631348800000)) (periodOf 0 Yearly 1704448800000)
   \<and> earlier (periodOf 0 Monthly (- 30631348800000)) (periodOf 0 Monthly 1704448800000)"
proof (intro conjI)
  show "toISOString (- 30631348800000) = ''0999-05-01T12:00:00.000Z''" by code_simp
  show "toISOString 1704448800000 = ''2024-01-05T10:00:00.000Z''" by code_simp
  show "map label (reportRows exampleParse 0 ([] :: nat Item list) [createdOrder, oldOrder] [] [] Yearly FilterAll)
       = [''999'', ''2024'']" by code_simp
  show "map label (reportRows exampleParse 0 ([] :: nat Item list) [createdOrder, oldOrder] [] [] Monthly FilterAll)
       = [''999-05'', ''2024-01'']" by code_simp
  show "earlier (periodOf 0 Yearly (- 30631348800000)) (periodOf 0 Yearly 1704448800000)" by code_simp
  show "earlier (periodOf 0 Monthly (- 30631348800000)) (periodOf 0 Monthly 1704448800000)" by code_simp
qed

section \<open>Properties: the settlement\<close>

lemma update_fresh: "k \<notin> fst ` set al \<Longrightarrow> AList.update k v al = al @ [(k, v)]"
  by (induction al) auto

lemma example_created:
  "db_orders (database exampleAppWithOrder) = [(''-Norder1'', createdNode)]"
  "orderOfNode ''-Norder1'' createdNode = Some createdOrder"
  "orders exampleAppWithOrder = [createdOrder]"
  "db_loanCustomers (database exampleAppWithOrder) = db_loanCustomers exampleDatabase"
  by code_simp+

text \<open>
  An order whose node is stored under its own id: the transition to paid (or back to
  pending) writes the status and the collector into that node and nothing else; the
  other fields of the node, every other order and the loan ledger stay as they were.
\<close>

lemma status_change_frame:
  assumes "st \<noteq> Loan" and "map_of (db_orders (database s)) (order_id order) = Some node"
  shows "database (handleStatusChange order st WriteOk s)
       = (database s)\<lparr> db_orders :=
            AList.update (order_id order)
              (node\<lparr> node_status := Some st, node_collector := Some (collectorFor st s) \<rparr>)
              (db_orders (database s)) \<rparr>"
    and "db_loanCustomers (database (handleStatusChange order st WriteOk s))
       = db_loanCustomers (database s)"
    and "k \<noteq> order_id order \<Longrightarrow>
         map_of (db_orders (database (handleStatusChange order st WriteOk s))) k
       = map_of (db_orders (database s)) k"
    and "database (handleStatusChange order st (WriteFailed msg) s) = database s"
  using assms
  by (simp_all add: handleStatusChange_def updateOrderStatus_def dbUpdateOrder_def Let_def
      update_conv')

text \<open>
  Claim C5 fails on an order that the application itself has created.  \<open>handleCreateOrder\<close>
  stores the order under a pushed key and gives it the id \<open>order001\<close>; the transition to
  paid writes to \<open>orders/order001\<close>, the order's id and not its key.  The order stays
  pending in the database with no collector, and a second node appears that holds a
  status and a collector and nothing else.
\<close>

theorem paid_transition_misses_created_order:
  "db_orders (database exampleAppWithOrder) = [(''-Norder1'', createdNode)]
   \<and> orderOfNode ''-Norder1'' createdNode = Some createdOrder
   \<and> node_status createdNode = Some Pending
   \<and> db_orders (database (handleStatusChange createdOrder Paid WriteOk exampleAppWithOrder))
       = [(''-Norder1'', createdNode),
          (''order001'', emptyOrderNode\<lparr> node_status := Some Paid, node_collector := Some ''Bilal'' \<rparr>)]"
proof (intro conjI)
  show "db_orders (database exampleAppWithOrder) = [(''-Norder1'', createdNode)]"
    by (rule example_created)
  show "orderOfNode ''-Norder1'' createdNode = Some createdOrder"
    by (rule example_created)
  show "node_status createdNode = Some Pending" by (simp add: createdNode_def)
  show "db_orders (database (handleStatusChange createdOrder Paid WriteOk exampleAppWithOrder))
       = [(''-Norder1'', createdNode),
          (''order001'', emptyOrderNode\<lparr> node_status := Some Paid, node_collector := Some ''Bilal'' \<rparr>)]"
    by code_simp
qed

lemma updateOrderStatus_frame:
  "db_loanCustomers (database (updateOrderStatus i st wr s)) = db_loanCustomers (database s)"
  "loanCustomers (updateOrderStatus i st wr s) = loanCustomers s"
  "orders (updateOrderStatus i st wr s) = orders s"
  "users (updateOrderStatus i st wr s) = users s"
  "items_st (updateOrderStatus i st wr s) = items_st s"
  "db_orders (database (updateOrderStatus i st wr s))
     = (if wr = WriteOk then db_orders (dbUpdateOrder i st (collectorFor st s) (database s))
        else db_orders (database s))"
  by (cases wr; simp add: updateOrderStatus_def dbUpdateOrder_def Let_def)+

lemma loanEntryFor_cong:
  "users s' = users s \<Longrightarrow> items_st s' = items_st s \<Longrightarrow> loanEntryFor k s' order = loanEntryFor k s order"
  by (simp add: loanEntryFor_def)

lemma addLoanEntryForOrder_database:
  "database (snd (addLoanEntryForOrder order customer k wr s))
     = (if wr = WriteOk \<and> existingEntry order customer = None
        then dbSetLoan (pathIdOf customer) k (loanEntryFor k s order) (database s)
        else database s)"
  by (cases wr) (simp_all add: addLoanEntryForOrder_def Let_def)

lemma dbSetLoan_orders: "db_orders (dbSetLoan p k e db) = db_orders db"
  by (simp add: dbSetLoan_def Let_def)

lemma confirmLoanStatus_database:
  assumes "loanStatusOrderId s \<noteq> []" "loanStatusCustomerId s \<noteq> []"
    and "find (\<lambda>ord. order_id ord = loanStatusOrderId s) (orders s) = Some order"
    and "find (\<lambda>c. cust_id c = loanStatusCustomerId s) (loanCustomers s) = Some customer"
  shows "db_orders (database (confirmLoanStatus k wo wl s))
       = (if wo = WriteOk
          then db_orders (dbUpdateOrder (order_id order) Loan (collectorFor Loan s) (database s))
          else db_orders (database s))"
    and "db_loanCustomers (database (confirmLoanStatus k wo wl s))
       = (if wl = WriteOk \<and> existingEntry order customer = None
          then db_loanCustomers (dbSetLoan (pathIdOf customer) k (loanEntryFor k s order) (database s))
          else db_loanCustomers (database s))"
proof -
  define s1 where "s1 = updateOrderStatus (order_id order) Loan wo s"
  have e: "loanEntryFor k s1 order = loanEntryFor k s order"
    unfolding s1_def by (rule loanEntryFor_cong) (simp_all add: updateOrderStatus_frame)
  have c: "database (confirmLoanStatus k wo wl s)
      = database (snd (addLoanEntryForOrder order customer k wl s1))"
    using assms by (simp add: confirmLoanStatus_def Let_def s1_def)
  show "db_orders (database (confirmLoanStatus k wo wl s))
       = (if wo = WriteOk
          then db_orders (dbUpdateOrder (order_id order) Loan (collectorFor Loan s) (database s))
          else db_orders (database s))"
    unfolding c addLoanEntryForOrder_database
    by (simp add: dbSetLoan_orders s1_def updateOrderStatus_frame)
  show "db_loanCustomers (database (confirmLoanStatus k wo wl s))
       = (if wl = WriteOk \<and> existingEntry order customer = None
          then db_loanCustomers (dbSetLoan (pathIdOf customer) k (loanEntryFor k s order) (database s))
          else db_loanCustomers (database s))"
    unfolding c addLoanEntryForOrder_database e
    by (simp add: dbSetLoan_def Let_def s1_def updateOrderStatus_frame)
qed


lemma example_dialog:
  "loanStatusOrderId exampleLoanDialog = ''order001''"
  "loanStatusCustomerId exampleLoanDialog = ''-NcustX''"
  "find (\<lambda>ord. order_id ord = loanStatusOrderId exampleLoanDialog) (orders exampleLoanDialog)
     = Some createdOrder"
  "find (\<lambda>c. cust_id c = loanStatusCustomerId exampleLoanDialog) (loanCustomers exampleLoanDialog)
     = Some customerX"
  "existingEntry createdOrder customerX = None"
  "pathIdOf customerX = ''-NcustX''"
  "loanEntryFor k exampleLoanDialog createdOrder = createdEntry k"
  "db_orders (database exampleLoanDialog) = [(''-Norder1'', createdNode)]"
  "db_loanCustomers (database exampleLoanDialog) = db_loanCustomers exampleDatabase"
  by code_simp+


lemma example_keyed_dialog:
  "loanStatusOrderId exampleKeyedLoanDialog = ''order001''"
  "loanStatusCustomerId exampleKeyedLoanDialog = ''-NcustX''"
  "find (\<lambda>ord. order_id ord = loanStatusOrderId exampleKeyedLoanDialog) (orders exampleKeyedLoanDialog)
     = Some createdOrder"
  "find (\<lambda>c. cust_id c = loanStatusCustomerId exampleKeyedLoanDialog)
     (loanCustomers exampleKeyedLoanDialog) = Some customerX"
  "existingEntry createdOrder customerX = None"
  "db_orders (database exampleKeyedLoanDialog) = [(''order001'', createdNode)]"
  "collectorFor Loan exampleKeyedLoanDialog = ''Bilal''"
  "order_id createdOrder = ''order001''"
  by code_simp+




lemma example_loaned:
  "ledgerOrderIds (database exampleLoanedToX) = [[''order001''], []]"
  "loanCustomers exampleLoanedToX = [customerXLoaned, customerY]"
  "db_orders (database examplePendingAgain)
     = [(''order001'', createdNode\<lparr> node_status := Some Pending, node_collector := Some [] \<rparr>)]"
  "ledgerOrderIds (database examplePendingAgain) = [[''order001''], []]"
  "existingEntry createdOrder customerXLoaned = Some (createdEntry ''-Nloan1'')"
  "existingEntry createdOrder customerY = None"
  "orders exampleLoanedToX = [createdOrder]"
  "db_loanCustomers (database exampleLoanedToX)
     = [(''-NcustX'', (exampleCustomerNode ''-NcustX'' ''Xasan'')
                        \<lparr> cnode_loans := [(''-Nloan1'', createdEntry ''-Nloan1'')] \<rparr>),
        (''-NcustY'', exampleCustomerNode ''-NcustY'' ''Yusuf'')]"
  by code_simp+










text \<open>
  Claim C4, as the code has it.  For a valid selection of order and customer, the
  customer's node being in the database and the pushed key a new one: when the ledger
  write succeeds and the loans of the chosen customer hold no entry for the order yet,
  the settlement adds exactly one entry, under that customer and under the pushed key,
  and leaves the rest of the ledger as it was; otherwise (the write is refused, or the
  customer holds an entry for the order already, as after a settlement that was set back
  to pending) it adds none.  The amount of the entry is the total of the order at that
  instant, the sum from left to right over the line items of quantity times the current
  price of the item, 0 for an item that is gone; its date is the time of the order; its
  \<open>servedBy\<close> is the name of the user whose id is the waiter id of the order, and the
  waiter id itself when there is no such user (\<open>Object\<close> for the id \<open>constructor\<close>).
\<close>

theorem settlement_creates_loan_entry:
  assumes "loanStatusOrderId s \<noteq> []" and "loanStatusCustomerId s \<noteq> []"
    and "find (\<lambda>ord. order_id ord = loanStatusOrderId s) (orders s) = Some order"
    and "find (\<lambda>c. cust_id c = loanStatusCustomerId s) (loanCustomers s) = Some customer"
    and "map_of (db_loanCustomers (database s)) (pathIdOf customer) = Some cnode"
    and "k \<notin> fst ` set (cnode_loans cnode)"
  shows "db_loanCustomers (database (confirmLoanStatus k wo wl s))
       = (if wl = WriteOk \<and> existingEntry order customer = None
          then AList.update (pathIdOf customer)
                 (cnode\<lparr> cnode_loans := cnode_loans cnode
                     @ [(k, \<lparr> entry_id = k, orderId = order_id order,
                              amount = orderTotal (items_st s) order,
                              date = time order,
                              servedBy = servedByOf (users s) order \<rparr>)] \<rparr>)
                 (db_loanCustomers (database s))
          else db_loanCustomers (database s))
     \<and> orderTotal (items_st s) order
       = foldl (\<lambda>sum entry. sum + qty entry
                  * (case itemsById (items_st s) (itemId entry) of None \<Rightarrow> 0 | Some it \<Rightarrow> price it))
           0 (items order)
     \<and> servedByOf (users s) order
       = (case usersById (users s) (waiterId order) of
            Some u \<Rightarrow> user_name u
          | None \<Rightarrow> if waiterId order = ''constructor'' then ''Object'' else waiterId order)"
proof (intro conjI)
  have "db_loanCustomers (database (confirmLoanStatus k wo wl s))
       = (if wl = WriteOk \<and> existingEntry order customer = None
          then db_loanCustomers (dbSetLoan (pathIdOf customer) k (loanEntryFor k s order) (database s))
          else db_loanCustomers (database s))"
    using assms(1-4) by (rule confirmLoanStatus_database)
  moreover have "db_loanCustomers (dbSetLoan (pathIdOf customer) k (loanEntryFor k s order) (database s))
       = AList.update (pathIdOf customer)
                 (cnode\<lparr> cnode_loans := cnode_loans cnode
                     @ [(k, \<lparr> entry_id = k, orderId = order_id order,
                              amount = orderTotal (items_st s) order,
                              date = time order,
                              servedBy = servedByOf (users s) order \<rparr>)] \<rparr>)
                 (db_loanCustomers (database s))"
    using assms(5) update_fresh [OF assms(6)]
    by (simp add: dbSetLoan_def Let_def loanEntryFor_def)
  ultimately show "db_loanCustomers (database (confirmLoanStatus k wo wl s))
       = (if wl = WriteOk \<and> existingEntry order customer = None
          then AList.update (pathIdOf customer)
                 (cnode\<lparr> cnode_loans := cnode_loans cnode
                     @ [(k, \<lparr> entry_id = k, orderId = order_id order,
                              amount = orderTotal (items_st s) order,
                              date = time order,
                              servedBy = servedByOf (users s) order \<rparr>)] \<rparr>)
                 (db_loanCustomers (database s))
          else db_loanCustomers (database s))"
    by simp
  show "orderTotal (items_st s) order
       = foldl (\<lambda>sum entry. sum + qty entry
                  * (case itemsById (items_st s) (itemId entry) of None \<Rightarrow> 0 | Some it \<Rightarrow> price it))
           0 (items order)"
    by (simp add: orderTotal_def priceOf_def)
  show "servedByOf (users s) order
       = (case usersById (users s) (waiterId order) of
            Some u \<Rightarrow> user_name u
          | None \<Rightarrow> if waiterId order = ''constructor'' then ''Object'' else waiterId order)"
    by (simp add: servedByOf_def)
qed

lemma example_keyed_ledger:
  "map_of (db_loanCustomers (database exampleKeyedLoanDialog)) (pathIdOf customerX)
     = Some (exampleCustomerNode ''-NcustX'' ''Xasan'')"
  "''-Nloan1'' \<notin> fst ` set (cnode_loans (exampleCustomerNode ''-NcustX'' ''Xasan''))"
  "pathIdOf customerX = ''-NcustX''"
  "db_loanCustomers (database exampleKeyedLoanDialog)
     = [(''-NcustX'', exampleCustomerNode ''-NcustX'' ''Xasan''),
        (''-NcustY'', exampleCustomerNode ''-NcustY'' ''Yusuf'')]"
  "orderTotal (items_st exampleKeyedLoanDialog) createdOrder = 10"
  "servedByOf (users exampleKeyedLoanDialog) createdOrder = ''Amina''"
  "time createdOrder = ''2024-01-05T10:00:00.000Z''"
  by code_simp+

text \<open>
  The created order, two teas at 5 served by Amina, settled as a loan of customer X.
\<close>

theorem settlement_creates_loan_entry_witness:
  "db_loanCustomers (database (confirmLoanStatus ''-Nloan1'' WriteOk WriteOk exampleKeyedLoanDialog))
     = [(''-NcustX'', (exampleCustomerNode ''-NcustX'' ''Xasan'')
          \<lparr> cnode_loans := [(''-Nloan1'',
               \<lparr> entry_id = ''-Nloan1'', orderId = ''order001'', amount = 10,
                 date = ''2024-01-05T10:00:00.000Z'', servedBy = ''Amina'' \<rparr>)] \<rparr>),
        (''-NcustY'', exampleCustomerNode ''-NcustY'' ''Yusuf'')]"
proof -
  have a: "loanStatusOrderId exampleKeyedLoanDialog \<noteq> []"
    "loanStatusCustomerId exampleKeyedLoanDialog \<noteq> []"
    by (simp_all add: example_keyed_dialog)
  have l: "cnode_loans (exampleCustomerNode ''-NcustX'' ''Xasan'') = []"
    by (simp add: exampleCustomerNode_def)
  show ?thesis
    using settlement_creates_loan_entry [OF a example_keyed_dialog(3) example_keyed_dialog(4)
        example_keyed_ledger(1) example_keyed_ledger(2), of WriteOk WriteOk]
    by (simp add: example_keyed_dialog(5,8) example_keyed_ledger(3,4,5,6,7) l)
qed

text \<open>
  As the claim is worded, for every settlement, it fails.  The order of the example was
  settled as a loan of X and set back to pending; it is settled as a loan of X again,
  both writes succeed, the order is a loan, and no entry is created.  And an order whose
  waiter is no longer among the users gets an entry served by \<open>w9\<close>, an id and not a
  name.
\<close>

theorem repeated_settlement_counterexample:
  "db_orders (database examplePendingAgain)
     = [(''order001'', createdNode\<lparr> node_status := Some Pending, node_collector := Some [] \<rparr>)]
   \<and> ledgerOrderIds (database examplePendingAgain) = [[''order001''], []]
   \<and> db_orders (database (settleLoan createdOrder ''-NcustX'' ''-Nloan2'' WriteOk WriteOk examplePendingAgain))
     = [(''order001'', createdNode\<lparr> node_status := Some Loan, node_collector := Some ''Bilal'' \<rparr>)]
   \<and> db_loanCustomers (database (settleLoan createdOrder ''-NcustX'' ''-Nloan2'' WriteOk WriteOk examplePendingAgain))
     = db_loanCustomers (database examplePendingAgain)
   \<and> servedBy (loanEntryFor ''-Nloan3'' exampleKeyedApp (createdOrder\<lparr> waiterId := ''w9'' \<rparr>)) = ''w9''"
proof (intro conjI)
  show "db_orders (database examplePendingAgain)
     = [(''order001'', createdNode\<lparr> node_status := Some Pending, node_collector := Some [] \<rparr>)]"
    by (rule example_loaned)
  show "ledgerOrderIds (database examplePendingAgain) = [[''order001''], []]"
    by (rule example_loaned)
  show "db_orders (database (settleLoan createdOrder ''-NcustX'' ''-Nloan2'' WriteOk WriteOk examplePendingAgain))
     = [(''order001'', createdNode\<lparr> node_status := Some Loan, node_collector := Some ''Bilal'' \<rparr>)]"
    by code_simp
  show "db_loanCustomers (database (settleLoan createdOrder ''-NcustX'' ''-Nloan2'' WriteOk WriteOk examplePendingAgain))
     = db_loanCustomers (database examplePendingAgain)"
    by code_simp
  show "servedBy (loanEntryFor ''-Nloan3'' exampleKeyedApp (createdOrder\<lparr> waiterId := ''w9'' \<rparr>)) = ''w9''"
    by code_simp
qed















end
